theory Spec2Isabelle
  imports Complex_Main "HOL-Library.Product_Lexorder"
begin

section \<open>DuraGas: the tank state engine of \<^verbatim>\<open>coordinator.py\<close>\<close>

text \<open>
  The development embeds the calculation and state-mutation methods of
  \<^verbatim>\<open>DuraGasDataUpdateCoordinator\<close> (file \<^verbatim>\<open>coordinator.py\<close>) and the constants of
  \<^verbatim>\<open>const.py\<close>.

  Modelling conventions.
  \<^item> Python floats and ints are exact reals (\<^typ>\<open>real\<close>): binary representation error and
    overflow of IEEE doubles are outside the model. Decimal rounding by \<^verbatim>\<open>round(x, n)\<close>
    is inside the model, as rounding of the exact value to \<open>n\<close> decimals, ties to
    the even neighbour.
  \<^item> A \<^verbatim>\<open>datetime\<close> is a record of its instant in microseconds (since the epoch in
    UTC when it is timezone-aware, of its wall-clock reading when it is naive), of the two
    calendar fields the code reads, \<^verbatim>\<open>.year\<close> and \<^verbatim>\<open>.month\<close>, and of whether it
    is aware (\<^verbatim>\<open>tzinfo\<close> is not \<^verbatim>\<open>None\<close>). Stored ISO strings are represented by
    the datetime they parse to, aware or naive as the datetime they were written from.
    \<^verbatim>\<open>dt_util.now()\<close> is aware; the refill date of a service call can be naive
    (\<^verbatim>\<open>cv.datetime\<close> accepts a string without offset).
    All the calls of \<^verbatim>\<open>dt_util.now()\<close> inside one refresh read the same value.
  \<^item> The members of the two \<^verbatim>\<open>StrEnum\<close> classes are their string values;
    the enum constructor is a validating function.
  \<^item> Every key of \<^verbatim>\<open>_stored_data\<close> and of the config entry is present, as
    \<^verbatim>\<open>async_load_stored_data\<close> and the config flow create them; the one key the code
    tolerates to be absent from a refill record, \<^verbatim>\<open>level_after\<close>, and the optional
    \<^verbatim>\<open>tank_capacity_custom\<close> are options.
  \<^item> An exception is a value of type \<open>error\<close> on the left of a sum.
\<close>

subsection \<open>Constants (\<^verbatim>\<open>const.py\<close>)\<close>

definition LP_GAS_KG_TO_LITERS :: real where
  "LP_GAS_KG_TO_LITERS = 196 / 100"

definition WATER_HEATING_BASE_PERCENTAGE :: real where
  "WATER_HEATING_BASE_PERCENTAGE = 40"

definition CYLINDER_MONTHLY_COST :: real where
  "CYLINDER_MONTHLY_COST = 584"

definition MAX_REFILL_HISTORY :: nat where
  "MAX_REFILL_HISTORY = 50"

text \<open>\<^verbatim>\<open>TANK_SIZES.get(tank_size, TANK_SIZES["120"])["capacity"]\<close>\<close>

definition TANK_SIZES_capacity :: "string \<Rightarrow> real" where
  "TANK_SIZES_capacity tank_size =
     (if tank_size = ''120'' then 120
      else if tank_size = ''180'' then 180
      else if tank_size = ''300'' then 300
      else if tank_size = ''500'' then 500
      else if tank_size = ''1000'' then 1000
      else if tank_size = ''custom'' then 0
      else 120)"

text \<open>\<^verbatim>\<open>class RefillStrategy(StrEnum)\<close>\<close>

definition FILL_COMPLETE :: string where "FILL_COMPLETE = ''fill_complete''"
definition FIXED_300 :: string where "FIXED_300 = ''fixed_300''"
definition FIXED_400 :: string where "FIXED_400 = ''fixed_400''"
definition FIXED_500 :: string where "FIXED_500 = ''fixed_500''"
definition FIXED_600 :: string where "FIXED_600 = ''fixed_600''"
definition LEVEL_50 :: string where "LEVEL_50 = ''level_50''"
definition LEVEL_60 :: string where "LEVEL_60 = ''level_60''"
definition LEVEL_70 :: string where "LEVEL_70 = ''level_70''"
definition CUSTOM :: string where "CUSTOM = ''custom''"

text \<open>\<^verbatim>\<open>class HeatingMode(StrEnum)\<close>\<close>

definition SOLAR_GAS_HYBRID :: string where "SOLAR_GAS_HYBRID = ''solar_gas_hybrid''"
definition SOLAR_ONLY :: string where "SOLAR_ONLY = ''solar_only''"
definition GAS_ONLY :: string where "GAS_ONLY = ''gas_only''"
definition NONE :: string where "NONE = ''none''"

datatype error = ZeroDivisionError | ValueError | TypeError

text \<open>The enum constructors \<^verbatim>\<open>RefillStrategy(value)\<close> and \<^verbatim>\<open>HeatingMode(value)\<close>:
  a value that is no member raises \<^verbatim>\<open>ValueError\<close>.\<close>

definition RefillStrategy :: "string \<Rightarrow> error + string" where
  "RefillStrategy v =
     (if v \<in> set [FILL_COMPLETE, FIXED_300, FIXED_400, FIXED_500, FIXED_600,
                   LEVEL_50, LEVEL_60, LEVEL_70, CUSTOM]
      then Inr v else Inl ValueError)"

definition HeatingMode :: "string \<Rightarrow> error + string" where
  "HeatingMode v =
     (if v \<in> set [SOLAR_GAS_HYBRID, SOLAR_ONLY, GAS_ONLY, NONE]
      then Inr v else Inl ValueError)"

subsection \<open>Python's \<^verbatim>\<open>round(x, ndigits)\<close>\<close>

text \<open>Rounding to the nearest integer, ties to the even one.\<close>

definition round_half_even :: "real \<Rightarrow> int" where
  "round_half_even x =
     (let f = \<lfloor>x\<rfloor>; d = x - of_int f
      in if d < 1 / 2 then f
         else if 1 / 2 < d then f + 1
         else if even f then f else f + 1)"

definition py_round :: "real \<Rightarrow> nat \<Rightarrow> real" where
  "py_round x ndigits = of_int (round_half_even (x * 10 ^ ndigits)) / 10 ^ ndigits"

subsection \<open>Data\<close>

record datetime =
  instant :: int
  year :: int
  month :: nat
  aware :: bool

text \<open>One element of \<^verbatim>\<open>refill_history\<close>.\<close>

record refill_entry =
  refill_date :: datetime
  refill_liters :: real
  refill_price_per_liter :: real
  refill_total_cost :: real
  refill_level_before :: real
  refill_level_after :: "real option"

text \<open>\<^verbatim>\<open>self._stored_data\<close>\<close>

record stored_data =
  current_level :: real
  refill_history :: "refill_entry list"
  solar_roi_accumulated :: real
  heating_mode :: string
  refill_strategy :: string
  custom_strategy_amount :: "real option"
  last_solar_update :: "datetime option"

text \<open>\<^verbatim>\<open>self.config_entry.data\<close>, one field for each \<^verbatim>\<open>CONF_*\<close> key that the
  coordinator reads.\<close>

record entry_data =
  conf_tank_size :: string
  conf_tank_capacity_custom :: "real option"
  conf_usable_percentage :: real
  conf_initial_level :: real
  conf_price_per_liter :: real
  conf_has_solar :: bool
  conf_solar_investment :: real
  conf_solar_efficiency :: real
  conf_low_threshold :: real
  conf_refill_threshold :: real
  conf_refill_strategy :: string

text \<open>The dictionary that \<^verbatim>\<open>_build_config\<close> returns.\<close>

record config =
  cfg_tank_size :: string
  cfg_capacity :: real
  cfg_usable_capacity :: real
  cfg_usable_percentage :: real
  cfg_price_per_liter :: real
  cfg_has_solar :: bool
  cfg_solar_investment :: real
  cfg_solar_efficiency :: real
  cfg_heating_mode :: string
  cfg_refill_strategy :: string
  cfg_low_threshold :: real
  cfg_refill_threshold :: real

record tank =
  tank_capacity :: real
  tank_usable_capacity :: real
  tank_current_level :: real
  tank_current_liters :: real
  tank_current_kg :: real
  tank_current_value :: real

record consumption =
  cons_daily :: real
  cons_monthly :: real
  cons_days_since_refill :: int
  cons_liters_consumed :: real

text \<open>\<^verbatim>\<open>next_refill_date\<close> is the instant of the ISO string the code returns.\<close>

record projection =
  proj_days_remaining :: "real option"
  proj_weeks_remaining :: "real option"
  proj_next_refill_date :: "int option"
  proj_recommended_liters :: real
  proj_recommended_cost :: real
  proj_resulting_level :: real

record last_refill =
  last_date :: "datetime option"
  last_liters :: "real option"
  last_price_per_liter :: "real option"
  last_total_cost :: "real option"

record strategy =
  strat_current :: string
  strat_monthly_cost :: real
  strat_refills_per_month :: real
  strat_vs_cylinders :: real

record solar =
  solar_efficiency_real :: real
  solar_savings_monthly :: real
  solar_roi_accumulated_out :: real
  solar_roi_percentage :: real
  solar_months_to_payback :: "real option"
  solar_hot_water_consumption :: real
  solar_heating_mode :: string

text \<open>The dictionary that \<^verbatim>\<open>_async_update_data\<close> returns.\<close>

record data =
  data_config :: config
  data_tank :: tank
  data_consumption :: consumption
  data_projection :: projection
  data_last_refill :: last_refill
  data_strategy :: strategy
  data_solar :: "solar option"
  data_refill_history :: "refill_entry list"

text \<open>The coordinator object: its config entry and its stored data.\<close>

record coordinator =
  config_entry :: entry_data
  stored :: stored_data


subsection \<open>Arithmetic that can raise\<close>

text \<open>Python's \<^verbatim>\<open>a / b\<close>.\<close>

definition truediv :: "real \<Rightarrow> real \<Rightarrow> error + real" where
  "truediv a b = (if b = 0 then Inl ZeroDivisionError else Inr (a / b))"

text \<open>\<^verbatim>\<open>a - b\<close> for two datetimes, as a \<^verbatim>\<open>timedelta\<close> in microseconds. Python
  subtracts two aware datetimes and two naive ones, and raises \<^verbatim>\<open>TypeError\<close> when one
  is aware and the other is naive.\<close>

definition datetime_sub :: "datetime \<Rightarrow> datetime \<Rightarrow> error + int" where
  "datetime_sub a b =
     (if aware a = aware b then Inr (instant a - instant b) else Inl TypeError)"

text \<open>\<^verbatim>\<open>delta.days\<close>: the whole days of a \<^verbatim>\<open>timedelta\<close>, rounded towards minus
  infinity as \<^verbatim>\<open>timedelta\<close> normalises it.\<close>

definition timedelta_days :: "int \<Rightarrow> int" where
  "timedelta_days delta = delta div 86400000000"

text \<open>\<^verbatim>\<open>timedelta(days=d)\<close> in microseconds, the resolution of \<^verbatim>\<open>timedelta\<close>.\<close>

definition timedelta_of_days :: "real \<Rightarrow> int" where
  "timedelta_of_days d = round_half_even (d * 86400000000)"

subsection \<open>\<^verbatim>\<open>async_load_stored_data\<close> on an empty store, \<^verbatim>\<open>_build_config\<close>\<close>

definition load_defaults :: "entry_data \<Rightarrow> stored_data" where
  "load_defaults entry =
     \<lparr> current_level = conf_initial_level entry,
       refill_history = [],
       solar_roi_accumulated = 0,
       heating_mode = (if conf_has_solar entry then SOLAR_GAS_HYBRID else GAS_ONLY),
       refill_strategy = conf_refill_strategy entry,
       custom_strategy_amount = None,
       last_solar_update = None \<rparr>"

definition build_config :: "entry_data \<Rightarrow> stored_data \<Rightarrow> error + config" where
  "build_config entry st =
     (let tank_size = conf_tank_size entry;
          capacity =
            (if tank_size = ''custom''
             then (case conf_tank_capacity_custom entry of None \<Rightarrow> 120 | Some c \<Rightarrow> c)
             else TANK_SIZES_capacity tank_size);
          usable_percentage = conf_usable_percentage entry;
          usable_capacity = capacity * (usable_percentage / 100)
      in case HeatingMode (heating_mode st) of
           Inl e \<Rightarrow> Inl e
         | Inr mode \<Rightarrow>
             (case RefillStrategy (refill_strategy st) of
                Inl e \<Rightarrow> Inl e
              | Inr strat \<Rightarrow>
                  Inr \<lparr> cfg_tank_size = tank_size,
                        cfg_capacity = capacity,
                        cfg_usable_capacity = usable_capacity,
                        cfg_usable_percentage = usable_percentage,
                        cfg_price_per_liter = conf_price_per_liter entry,
                        cfg_has_solar = conf_has_solar entry,
                        cfg_solar_investment = conf_solar_investment entry,
                        cfg_solar_efficiency = conf_solar_efficiency entry,
                        cfg_heating_mode = mode,
                        cfg_refill_strategy = strat,
                        cfg_low_threshold = conf_low_threshold entry,
                        cfg_refill_threshold = conf_refill_threshold entry \<rparr>))"

subsection \<open>\<^verbatim>\<open>_calculate_tank_state\<close>\<close>

definition calculate_tank_state :: "stored_data \<Rightarrow> config \<Rightarrow> tank" where
  "calculate_tank_state st config =
     (let current_level = current_level st;
          usable_capacity = cfg_usable_capacity config;
          price_per_liter = cfg_price_per_liter config;
          current_liters = usable_capacity * (current_level / 100);
          current_kg = current_liters / LP_GAS_KG_TO_LITERS;
          current_value = current_liters * price_per_liter
      in \<lparr> tank_capacity = cfg_capacity config,
           tank_usable_capacity = usable_capacity,
           tank_current_level = current_level,
           tank_current_liters = py_round current_liters 2,
           tank_current_kg = py_round current_kg 2,
           tank_current_value = py_round current_value 2 \<rparr>)"

subsection \<open>\<^verbatim>\<open>_calculate_consumption\<close>\<close>

definition calculate_consumption ::
    "stored_data \<Rightarrow> datetime \<Rightarrow> tank \<Rightarrow> error + consumption" where
  "calculate_consumption st now tank =
     (if refill_history st = []
      then Inr \<lparr> cons_daily = 0, cons_monthly = 0,
                 cons_days_since_refill = 0, cons_liters_consumed = 0 \<rparr>
      else
        let last_refill = last (refill_history st);
            last_refill_date = refill_date last_refill
        in case datetime_sub now last_refill_date of
             Inl e \<Rightarrow> Inl e
           | Inr delta \<Rightarrow>
               (let days_since_refill = max (timedelta_days delta) 1;
                    level_after_refill =
                      (case refill_level_after last_refill of None \<Rightarrow> 100 | Some l \<Rightarrow> l);
                    current_level = current_level st;
                    usable_capacity = tank_usable_capacity tank;
                    liters_at_refill = usable_capacity * (level_after_refill / 100);
                    current_liters = usable_capacity * (current_level / 100);
                    liters_consumed = max (liters_at_refill - current_liters) 0;
                    daily_consumption =
                      (if days_since_refill > 0
                       then liters_consumed / of_int days_since_refill else 0);
                    monthly_consumption = daily_consumption * 30
                in Inr \<lparr> cons_daily = py_round daily_consumption 2,
                         cons_monthly = py_round monthly_consumption 2,
                         cons_days_since_refill = days_since_refill,
                         cons_liters_consumed = py_round liters_consumed 2 \<rparr>))"

text \<open>The local variable \<^verbatim>\<open>liters_consumed\<close> of \<^verbatim>\<open>_calculate_consumption\<close> (lines 188
  to 194 of the source), that the returned dictionary rounds; lemma
  \<open>liters_consumed_reported\<close> below ties it to \<open>calculate_consumption\<close>.\<close>

definition liters_consumed :: "stored_data \<Rightarrow> tank \<Rightarrow> real" where
  "liters_consumed st tank =
     (let last_refill = last (refill_history st);
          level_after_refill =
            (case refill_level_after last_refill of None \<Rightarrow> 100 | Some l \<Rightarrow> l);
          current_level = current_level st;
          usable_capacity = tank_usable_capacity tank;
          liters_at_refill = usable_capacity * (level_after_refill / 100);
          current_liters = usable_capacity * (current_level / 100)
      in max (liters_at_refill - current_liters) 0)"

subsection \<open>\<^verbatim>\<open>_calculate_recommended_liters\<close>\<close>

text \<open>The \<^verbatim>\<open>match\<close> statement compares the strategy with each member in turn; the
  last case is the wildcard. \<^verbatim>\<open>(custom_amount or 400)\<close> takes 400 for \<^verbatim>\<open>None\<close> and
  for zero.\<close>

definition calculate_recommended_liters ::
    "stored_data \<Rightarrow> string \<Rightarrow> real \<Rightarrow> real \<Rightarrow> real \<Rightarrow> error + real" where
  "calculate_recommended_liters st strategy usable_capacity current_liters price_per_liter =
     (if strategy = FILL_COMPLETE then Inr (max (usable_capacity - current_liters) 0)
      else if strategy = FIXED_300 then truediv 300 price_per_liter
      else if strategy = FIXED_400 then truediv 400 price_per_liter
      else if strategy = FIXED_500 then truediv 500 price_per_liter
      else if strategy = FIXED_600 then truediv 600 price_per_liter
      else if strategy = LEVEL_50 then
        (let target = usable_capacity * (5 / 10) in Inr (max (target - current_liters) 0))
      else if strategy = LEVEL_60 then
        (let target = usable_capacity * (6 / 10) in Inr (max (target - current_liters) 0))
      else if strategy = LEVEL_70 then
        (let target = usable_capacity * (7 / 10) in Inr (max (target - current_liters) 0))
      else if strategy = CUSTOM then
        (let custom_amount = custom_strategy_amount st
         in truediv (case custom_amount of
                       None \<Rightarrow> 400
                     | Some a \<Rightarrow> if a = 0 then 400 else a) price_per_liter)
      else Inr (max (usable_capacity - current_liters) 0))"

subsection \<open>\<^verbatim>\<open>_calculate_projection\<close>\<close>

text \<open>The source keeps \<^verbatim>\<open>float("inf")\<close> in \<^verbatim>\<open>days_remaining\<close> and
  \<^verbatim>\<open>weeks_remaining\<close> when there is no consumption and turns it into \<^verbatim>\<open>None\<close> in the
  returned dictionary; the model has \<open>None\<close> from the start.\<close>

definition calculate_projection ::
    "stored_data \<Rightarrow> datetime \<Rightarrow> config \<Rightarrow> tank \<Rightarrow> consumption \<Rightarrow> error + projection" where
  "calculate_projection st now config tank consumption =
     (let daily_consumption = cons_daily consumption;
          current_liters = tank_current_liters tank;
          usable_capacity = tank_usable_capacity tank;
          price_per_liter = cfg_price_per_liter config;
          strategy = cfg_refill_strategy config;
          days_remaining =
            (if daily_consumption > 0 then Some (current_liters / daily_consumption) else None);
          weeks_remaining = map_option (\<lambda>d. d / 7) days_remaining;
          next_refill_date =
            map_option (\<lambda>d. instant now + timedelta_of_days d) days_remaining
      in case calculate_recommended_liters st strategy usable_capacity current_liters
                price_per_liter of
           Inl e \<Rightarrow> Inl e
         | Inr recommended_liters \<Rightarrow>
             (let recommended_cost = recommended_liters * price_per_liter
              in case truediv (current_liters + recommended_liters) usable_capacity of
                   Inl e \<Rightarrow> Inl e
                 | Inr q \<Rightarrow>
                     (let resulting_level = q * 100
                      in Inr \<lparr> proj_days_remaining =
                                  map_option (\<lambda>d. py_round d 1) days_remaining,
                                proj_weeks_remaining =
                                  map_option (\<lambda>w. py_round w 1) weeks_remaining,
                                proj_next_refill_date = next_refill_date,
                                proj_recommended_liters = py_round recommended_liters 2,
                                proj_recommended_cost = py_round recommended_cost 2,
                                proj_resulting_level =
                                  py_round (min resulting_level 100) 1 \<rparr>)))"

subsection \<open>\<^verbatim>\<open>_get_last_refill\<close>, \<^verbatim>\<open>_calculate_strategy\<close>\<close>

definition get_last_refill :: "stored_data \<Rightarrow> last_refill" where
  "get_last_refill st =
     (if refill_history st = []
      then \<lparr> last_date = None, last_liters = None,
             last_price_per_liter = None, last_total_cost = None \<rparr>
      else
        let l = last (refill_history st)
        in \<lparr> last_date = Some (refill_date l),
             last_liters = Some (refill_liters l),
             last_price_per_liter = Some (refill_price_per_liter l),
             last_total_cost = Some (refill_total_cost l) \<rparr>)"

definition calculate_strategy :: "config \<Rightarrow> consumption \<Rightarrow> error + strategy" where
  "calculate_strategy config consumption =
     (let monthly_consumption = cons_monthly consumption;
          price_per_liter = cfg_price_per_liter config;
          monthly_cost = monthly_consumption * price_per_liter;
          vs_cylinders = CYLINDER_MONTHLY_COST - monthly_cost;
          usable_capacity = cfg_usable_capacity config
      in case (if monthly_consumption > 0
               then truediv monthly_consumption usable_capacity else Inr 0) of
           Inl e \<Rightarrow> Inl e
         | Inr refills_per_month \<Rightarrow>
             Inr \<lparr> strat_current = cfg_refill_strategy config,
                   strat_monthly_cost = py_round monthly_cost 2,
                   strat_refills_per_month = py_round refills_per_month 2,
                   strat_vs_cylinders = py_round vs_cylinders 2 \<rparr>)"

subsection \<open>\<^verbatim>\<open>_calculate_solar\<close>\<close>

text \<open>As in the projection, \<open>None\<close> stands for the \<^verbatim>\<open>float("inf")\<close> that the source
  turns into \<^verbatim>\<open>None\<close> when it builds the dictionary.\<close>

definition calculate_solar :: "stored_data \<Rightarrow> config \<Rightarrow> consumption \<Rightarrow> solar" where
  "calculate_solar st config consumption =
     (let monthly_consumption = cons_monthly consumption;
          price_per_liter = cfg_price_per_liter config;
          solar_efficiency = cfg_solar_efficiency config;
          solar_investment = cfg_solar_investment config;
          heating_mode = cfg_heating_mode config;
          base_water_heating = monthly_consumption * (WATER_HEATING_BASE_PERCENTAGE / 100);
          coverage =
            (if heating_mode = SOLAR_GAS_HYBRID then solar_efficiency / 100
             else if heating_mode = SOLAR_ONLY then 1
             else 0);
          liters_saved = base_water_heating * coverage;
          savings_monthly = liters_saved * price_per_liter;
          roi_accumulated = solar_roi_accumulated st;
          roi_percentage =
            (if solar_investment > 0 then roi_accumulated / solar_investment * 100 else 0);
          months_to_payback =
            (if savings_monthly > 0 \<and> solar_investment > roi_accumulated
             then Some ((solar_investment - roi_accumulated) / savings_monthly)
             else if roi_accumulated \<ge> solar_investment then Some 0 else None);
          hot_water_consumption =
            (if monthly_consumption > 0 then base_water_heating / 30 else 0)
      in \<lparr> solar_efficiency_real = solar_efficiency,
           solar_savings_monthly = py_round savings_monthly 2,
           solar_roi_accumulated_out = py_round roi_accumulated 2,
           solar_roi_percentage = py_round roi_percentage 2,
           solar_months_to_payback = map_option (\<lambda>m. py_round m 1) months_to_payback,
           solar_hot_water_consumption = py_round hot_water_consumption 2,
           solar_heating_mode = heating_mode \<rparr>)"

subsection \<open>\<^verbatim>\<open>_update_solar_roi\<close>\<close>

definition update_solar_roi :: "solar option \<Rightarrow> datetime \<Rightarrow> stored_data \<Rightarrow> stored_data" where
  "update_solar_roi solar_opt now st =
     (case solar_opt of
        None \<Rightarrow> st
      | Some solar \<Rightarrow>
          (case last_solar_update st of
             Some last_update_date \<Rightarrow>
               if month now \<noteq> month last_update_date \<or> year now \<noteq> year last_update_date
               then st\<lparr> solar_roi_accumulated :=
                          solar_roi_accumulated st + solar_savings_monthly solar,
                        last_solar_update := Some now \<rparr>
               else st
           | None \<Rightarrow> st\<lparr> last_solar_update := Some now \<rparr>))"

subsection \<open>\<^verbatim>\<open>_async_update_data\<close>: one refresh\<close>

definition async_update_data :: "datetime \<Rightarrow> coordinator \<Rightarrow> error + (data \<times> coordinator)" where
  "async_update_data now c =
     (let st = stored c
      in case build_config (config_entry c) st of
           Inl e \<Rightarrow> Inl e
         | Inr config \<Rightarrow>
             (let tank = calculate_tank_state st config
              in case calculate_consumption st now tank of
                   Inl e \<Rightarrow> Inl e
                 | Inr consumption \<Rightarrow>
                     (case calculate_projection st now config tank consumption of
                        Inl e \<Rightarrow> Inl e
                      | Inr projection \<Rightarrow>
                          (let last_refill = get_last_refill st
                           in case calculate_strategy config consumption of
                                Inl e \<Rightarrow> Inl e
                              | Inr strategy \<Rightarrow>
                                  (let solar =
                                         (if cfg_has_solar config
                                          then Some (calculate_solar st config consumption)
                                          else None);
                                       st' = update_solar_roi solar now st
                                   in Inr (\<lparr> data_config = config,
                                             data_tank = tank,
                                             data_consumption = consumption,
                                             data_projection = projection,
                                             data_last_refill = last_refill,
                                             data_strategy = strategy,
                                             data_solar = solar,
                                             data_refill_history = refill_history st' \<rparr>,
                                           c\<lparr> stored := st' \<rparr>))))))"

text \<open>Modelled from the spec: \<^verbatim>\<open>async_refresh\<close> is a method of the host's
  \<^verbatim>\<open>DataUpdateCoordinator\<close>, which is not part of the repository. Following the
  specification's error paragraph, an exception of the recompute is caught and reported as
  an update failure; the stored data stay as they are.\<close>

definition async_refresh :: "datetime \<Rightarrow> coordinator \<Rightarrow> coordinator" where
  "async_refresh now c =
     (case async_update_data now c of Inl e \<Rightarrow> c | Inr (d, c') \<Rightarrow> c')"

subsection \<open>The five mutating operations\<close>

definition async_record_refill ::
    "real \<Rightarrow> real \<Rightarrow> datetime option \<Rightarrow> datetime \<Rightarrow> coordinator \<Rightarrow> error + coordinator" where
  "async_record_refill liters price_per_liter refill_date_arg now c =
     (let date = (case refill_date_arg of None \<Rightarrow> now | Some d \<Rightarrow> d);
          st = stored c
      in case build_config (config_entry c) st of
           Inl e \<Rightarrow> Inl e
         | Inr config \<Rightarrow>
             (let usable_capacity = cfg_usable_capacity config;
                  level_before = current_level st;
                  liters_before = usable_capacity * (level_before / 100);
                  liters_after = liters_before + liters
              in case truediv liters_after usable_capacity of
                   Inl e \<Rightarrow> Inl e
                 | Inr q \<Rightarrow>
                     (let level_after = min (q * 100) 100;
                          entry =
                            \<lparr> refill_date = date,
                              refill_liters = liters,
                              refill_price_per_liter = price_per_liter,
                              refill_total_cost = py_round (liters * price_per_liter) 2,
                              refill_level_before = py_round level_before 1,
                              refill_level_after = Some (py_round level_after 1) \<rparr>;
                          history = refill_history st @ [entry];
                          history' =
                            (if length history > MAX_REFILL_HISTORY
                             then drop (length history - MAX_REFILL_HISTORY) history
                             else history)
                      in Inr (async_refresh now
                                (c\<lparr> stored := st\<lparr> refill_history := history',
                                                  current_level := level_after \<rparr> \<rparr>)))))"

definition async_update_level :: "real \<Rightarrow> datetime \<Rightarrow> coordinator \<Rightarrow> coordinator" where
  "async_update_level level_percent now c =
     (let level_percent' = max 0 (min 100 level_percent)
      in async_refresh now (c\<lparr> stored := (stored c)\<lparr> current_level := level_percent' \<rparr> \<rparr>))"

definition async_update_price :: "real \<Rightarrow> datetime \<Rightarrow> coordinator \<Rightarrow> coordinator" where
  "async_update_price price_per_liter now c =
     async_refresh now
       (c\<lparr> config_entry := (config_entry c)\<lparr> conf_price_per_liter := price_per_liter \<rparr> \<rparr>)"

definition async_set_heating_mode :: "string \<Rightarrow> datetime \<Rightarrow> coordinator \<Rightarrow> coordinator" where
  "async_set_heating_mode mode now c =
     async_refresh now (c\<lparr> stored := (stored c)\<lparr> heating_mode := mode \<rparr> \<rparr>)"

definition async_set_strategy ::
    "string \<Rightarrow> real option \<Rightarrow> datetime \<Rightarrow> coordinator \<Rightarrow> coordinator" where
  "async_set_strategy strategy custom_amount now c =
     (let st = (stored c)\<lparr> refill_strategy := strategy \<rparr>;
          st' = (if strategy = CUSTOM \<and> custom_amount \<noteq> None
                 then st\<lparr> custom_strategy_amount := custom_amount \<rparr> else st)
      in async_refresh now (c\<lparr> stored := st' \<rparr>))"

subsection \<open>Runs of the engine\<close>

text \<open>A call that reaches the coordinator: the periodic refresh or one of the five
  operations, each at the time the host's clock shows. An operation that raises leaves the
  coordinator as it was (every raise of \<^verbatim>\<open>async_record_refill\<close> comes before its
  first assignment).\<close>

datatype call =
    Refresh
  | RecordRefill real real "datetime option"
  | UpdateLevel real
  | UpdatePrice real
  | SetHeatingMode string
  | SetStrategy string "real option"

fun perform :: "datetime \<times> call \<Rightarrow> coordinator \<Rightarrow> coordinator" where
  "perform (now, Refresh) c = async_refresh now c"
| "perform (now, RecordRefill liters price d) c =
     (case async_record_refill liters price d now c of Inl e \<Rightarrow> c | Inr c' \<Rightarrow> c')"
| "perform (now, UpdateLevel level_percent) c = async_update_level level_percent now c"
| "perform (now, UpdatePrice price) c = async_update_price price now c"
| "perform (now, SetHeatingMode mode) c = async_set_heating_mode mode now c"
| "perform (now, SetStrategy s a) c = async_set_strategy s a now c"

fun run :: "(datetime \<times> call) list \<Rightarrow> coordinator \<Rightarrow> coordinator" where
  "run [] c = c"
| "run (x # xs) c = run xs (perform x c)"

text \<open>The coordinator after \<^verbatim>\<open>async_setup_entry\<close> found an empty store.\<close>

definition initial :: "entry_data \<Rightarrow> coordinator" where
  "initial entry = \<lparr> config_entry = entry, stored = load_defaults entry \<rparr>"

subsection \<open>Validated inputs\<close>

text \<open>The schemas of the five services in \<^verbatim>\<open>__init__.py\<close>: what the host lets through
  to the coordinator.\<close>

fun valid_call :: "call \<Rightarrow> bool" where
  "valid_call Refresh = True"
| "valid_call (RecordRefill liters price d) =
     (0 \<le> liters \<and> liters \<le> 200 \<and> 8 \<le> price \<and> price \<le> 20)"
| "valid_call (UpdateLevel level_percent) = (0 \<le> level_percent \<and> level_percent \<le> 100)"
| "valid_call (UpdatePrice price) = (8 \<le> price \<and> price \<le> 20)"
| "valid_call (SetHeatingMode mode) =
     (mode \<in> set [SOLAR_GAS_HYBRID, SOLAR_ONLY, GAS_ONLY, NONE])"
| "valid_call (SetStrategy s a) =
     (s \<in> set [FILL_COMPLETE, FIXED_300, FIXED_400, FIXED_500, FIXED_600,
                LEVEL_50, LEVEL_60, LEVEL_70, CUSTOM]
      \<and> (case a of None \<Rightarrow> True | Some v \<Rightarrow> 100 \<le> v \<and> v \<le> 2000))"

text \<open>The assumption of a price that is not negative, for a call that sets the price.\<close>

fun price_nonneg :: "call \<Rightarrow> bool" where
  "price_nonneg (UpdatePrice price) = (0 \<le> price)"
| "price_nonneg _ = True"

text \<open>The usable capacity as \<^verbatim>\<open>_build_config\<close> computes it from the config entry alone
  (lemma \<open>build_config_usable_capacity\<close> below).\<close>

definition entry_usable_capacity :: "entry_data \<Rightarrow> real" where
  "entry_usable_capacity entry =
     (if conf_tank_size entry = ''custom''
      then (case conf_tank_capacity_custom entry of None \<Rightarrow> 120 | Some c \<Rightarrow> c)
      else TANK_SIZES_capacity (conf_tank_size entry))
     * (conf_usable_percentage entry / 100)"

subsection \<open>Observing the accruals of a run\<close>

text \<open>The calendar month of a datetime, and the calendar months of the calls of a run at
  which \<^verbatim>\<open>solar_roi_accumulated\<close> was changed, in the order of the run.\<close>

definition calendar_month :: "datetime \<Rightarrow> int \<times> nat" where
  "calendar_month t = (year t, month t)"

fun accrual_months :: "(datetime \<times> call) list \<Rightarrow> coordinator \<Rightarrow> (int \<times> nat) list" where
  "accrual_months [] c = []"
| "accrual_months (x # xs) c =
     (if solar_roi_accumulated (stored (perform x c)) \<noteq> solar_roi_accumulated (stored c)
      then [calendar_month (fst x)] else [])
     @ accrual_months xs (perform x c)"

subsection \<open>Example inputs\<close>

text \<open>A 120 litre tank with 80 percent usable (96 litres), solar assisted; one refill to
  100 percent on 2024-03-08 12:00 UTC, the level at 68.75 percent (66 litres) a week
  later.\<close>

definition example_entry :: entry_data where
  "example_entry =
     \<lparr> conf_tank_size = ''120'',
       conf_tank_capacity_custom = None,
       conf_usable_percentage = 80,
       conf_initial_level = 50,
       conf_price_per_liter = 1088 / 100,
       conf_has_solar = True,
       conf_solar_investment = 15000,
       conf_solar_efficiency = 70,
       conf_low_threshold = 20,
       conf_refill_threshold = 30,
       conf_refill_strategy = ''fill_complete'' \<rparr>"

definition example_refill_date :: datetime where
  "example_refill_date =
     \<lparr> instant = 1709899200000000, year = 2024, month = 3, aware = True \<rparr>"

definition example_now :: datetime where
  "example_now = \<lparr> instant = 1710504000000000, year = 2024, month = 3, aware = True \<rparr>"

definition example_refill :: refill_entry where
  "example_refill =
     \<lparr> refill_date = example_refill_date,
       refill_liters = 48,
       refill_price_per_liter = 1088 / 100,
       refill_total_cost = 52224 / 100,
       refill_level_before = 50,
       refill_level_after = Some 100 \<rparr>"

definition example_stored :: stored_data where
  "example_stored =
     \<lparr> current_level = 6875 / 100,
       refill_history = [example_refill],
       solar_roi_accumulated = 5000,
       heating_mode = ''solar_gas_hybrid'',
       refill_strategy = ''fill_complete'',
       custom_strategy_amount = None,
       last_solar_update = None \<rparr>"

definition example_coordinator :: coordinator where
  "example_coordinator = \<lparr> config_entry = example_entry, stored = example_stored \<rparr>"

text \<open>The configuration that \<^verbatim>\<open>_build_config\<close> builds for the example.\<close>

definition example_config :: config where
  "example_config =
     \<lparr> cfg_tank_size = ''120'',
       cfg_capacity = 120,
       cfg_usable_capacity = 96,
       cfg_usable_percentage = 80,
       cfg_price_per_liter = 1088 / 100,
       cfg_has_solar = True,
       cfg_solar_investment = 15000,
       cfg_solar_efficiency = 70,
       cfg_heating_mode = ''solar_gas_hybrid'',
       cfg_refill_strategy = ''fill_complete'',
       cfg_low_threshold = 20,
       cfg_refill_threshold = 30 \<rparr>"

text \<open>What one refresh computes for the example.\<close>

definition example_tank :: tank where
  "example_tank =
     \<lparr> tank_capacity = 120,
       tank_usable_capacity = 96,
       tank_current_level = 6875 / 100,
       tank_current_liters = 66,
       tank_current_kg = 3367 / 100,
       tank_current_value = 71808 / 100 \<rparr>"

definition example_consumption :: consumption where
  "example_consumption =
     \<lparr> cons_daily = 429 / 100,
       cons_monthly = 12857 / 100,
       cons_days_since_refill = 7,
       cons_liters_consumed = 30 \<rparr>"

definition example_projection :: projection where
  "example_projection =
     \<lparr> proj_days_remaining = Some (154 / 10),
       proj_weeks_remaining = Some (22 / 10),
       proj_next_refill_date = Some 1711833230769231,
       proj_recommended_liters = 30,
       proj_recommended_cost = 3264 / 10,
       proj_resulting_level = 100 \<rparr>"

definition example_solar :: solar where
  "example_solar =
     \<lparr> solar_efficiency_real = 70,
       solar_savings_monthly = 39168 / 100,
       solar_roi_accumulated_out = 5000,
       solar_roi_percentage = 3333 / 100,
       solar_months_to_payback = Some (255 / 10),
       solar_hot_water_consumption = 171 / 100,
       solar_heating_mode = ''solar_gas_hybrid'' \<rparr>"

text \<open>The example with a level of 33.333 percent and a refill record that has no
  \<^verbatim>\<open>level_after\<close>.\<close>

definition example_stored_no_level_after :: stored_data where
  "example_stored_no_level_after =
     example_stored
       \<lparr> current_level := 33333 / 1000,
         refill_history := [example_refill\<lparr> refill_level_after := None \<rparr>] \<rparr>"

definition example_data :: data where
  "example_data =
     \<lparr> data_config = example_config,
       data_tank = example_tank,
       data_consumption = example_consumption,
       data_projection = example_projection,
       data_last_refill =
         \<lparr> last_date = Some example_refill_date,
           last_liters = Some 48,
           last_price_per_liter = Some (1088 / 100),
           last_total_cost = Some (52224 / 100) \<rparr>,
       data_strategy =
         \<lparr> strat_current = ''fill_complete'',
           strat_monthly_cost = 139884 / 100,
           strat_refills_per_month = 134 / 100,
           strat_vs_cylinders = - (81484 / 100) \<rparr>,
       data_solar = Some example_solar,
       data_refill_history = [example_refill] \<rparr>"

text \<open>The stored data after that first refresh, which records the month.\<close>

definition example_stored_march :: stored_data where
  "example_stored_march = example_stored\<lparr> last_solar_update := Some example_now \<rparr>"

text \<open>A second refresh, on 2024-04-02 12:00 UTC: what it computes and the stored data
  after it.\<close>

definition example_april :: datetime where
  "example_april = \<lparr> instant = 1712059200000000, year = 2024, month = 4, aware = True \<rparr>"

definition example_stored_april :: stored_data where
  "example_stored_april =
     example_stored\<lparr> solar_roi_accumulated := 510967 / 100,
                      last_solar_update := Some example_april \<rparr>"

definition example_consumption_april :: consumption where
  "example_consumption_april =
     \<lparr> cons_daily = 12 / 10,
       cons_monthly = 36,
       cons_days_since_refill = 25,
       cons_liters_consumed = 30 \<rparr>"

definition example_solar_april :: solar where
  "example_solar_april =
     \<lparr> solar_efficiency_real = 70,
       solar_savings_monthly = 10967 / 100,
       solar_roi_accumulated_out = 5000,
       solar_roi_percentage = 3333 / 100,
       solar_months_to_payback = Some (912 / 10),
       solar_hot_water_consumption = 48 / 100,
       solar_heating_mode = ''solar_gas_hybrid'' \<rparr>"

definition example_data_april :: data where
  "example_data_april =
     \<lparr> data_config = example_config,
       data_tank = example_tank,
       data_consumption = example_consumption_april,
       data_projection =
         \<lparr> proj_days_remaining = Some 55,
           proj_weeks_remaining = Some (79 / 10),
           proj_next_refill_date = Some 1716811200000000,
           proj_recommended_liters = 30,
           proj_recommended_cost = 3264 / 10,
           proj_resulting_level = 100 \<rparr>,
       data_last_refill = get_last_refill example_stored,
       data_strategy =
         \<lparr> strat_current = ''fill_complete'',
           strat_monthly_cost = 39168 / 100,
           strat_refills_per_month = 38 / 100,
           strat_vs_cylinders = 19232 / 100 \<rparr>,
       data_solar = Some example_solar_april,
       data_refill_history = [example_refill] \<rparr>"

text \<open>A refill date without offset, as a service call can pass it, and the example with its
  refill recorded at that date.\<close>

definition example_naive_date :: datetime where
  "example_naive_date =
     \<lparr> instant = 1709899200000000, year = 2024, month = 3, aware = False \<rparr>"

definition example_stored_naive :: stored_data where
  "example_stored_naive =
     example_stored\<lparr> refill_history := [example_refill\<lparr> refill_date := example_naive_date \<rparr>] \<rparr>"

text \<open>The example with the level at 20 percent.\<close>

definition example_low :: coordinator where
  "example_low = example_coordinator\<lparr> stored := example_stored\<lparr> current_level := 20 \<rparr> \<rparr>"

section \<open>Properties\<close>

subsection \<open>Collections of defining equations\<close>

lemmas strategy_defs =
  FILL_COMPLETE_def FIXED_300_def FIXED_400_def FIXED_500_def FIXED_600_def
  LEVEL_50_def LEVEL_60_def LEVEL_70_def CUSTOM_def

lemmas mode_defs = SOLAR_GAS_HYBRID_def SOLAR_ONLY_def GAS_ONLY_def NONE_def

lemmas example_defs = example_entry_def example_refill_date_def example_now_def
  example_refill_def example_stored_def example_coordinator_def

subsection \<open>Rounding\<close>

lemma round_half_even_lower: "x - 1/2 \<le> of_int (round_half_even x)"
  unfolding round_half_even_def Let_def by (auto; linarith)

lemma round_half_even_upper: "of_int (round_half_even x) \<le> x + 1/2"
  unfolding round_half_even_def Let_def by (auto; linarith)

lemma round_half_even_le: "x \<le> of_int k \<Longrightarrow> round_half_even x \<le> k"
  unfolding round_half_even_def Let_def by (auto; linarith)

lemma round_half_even_ge: "of_int k \<le> x \<Longrightarrow> k \<le> round_half_even x"
  unfolding round_half_even_def Let_def by (auto; linarith)

lemma py_round_zero: "py_round 0 n = 0"
  by (simp add: py_round_def round_half_even_def)

lemma py_round_nonneg: "0 \<le> x \<Longrightarrow> 0 \<le> py_round x n"
proof -
  assume "0 \<le> x"
  then have "of_int 0 \<le> x * 10 ^ n" by simp
  then have "0 \<le> round_half_even (x * 10 ^ n)" by (rule round_half_even_ge)
  then show ?thesis by (simp add: py_round_def)
qed

lemma py_round_1_le_100: "x \<le> 100 \<Longrightarrow> py_round x 1 \<le> 100"
proof -
  assume "x \<le> 100"
  then have "x * 10 ^ 1 \<le> of_int 1000" by simp
  then have "round_half_even (x * 10 ^ 1) \<le> 1000" by (rule round_half_even_le)
  then show ?thesis by (simp add: py_round_def)
qed

lemma py_round_close: "\<bar>py_round x n - x\<bar> \<le> 1 / (2 * 10 ^ n)"
proof -
  define p :: real where "p = 10 ^ n"
  define r :: real where "r = of_int (round_half_even (x * p))"
  have p: "0 < p" by (simp add: p_def)
  have "x * p - 1/2 \<le> r" "r \<le> x * p + 1/2"
    unfolding r_def by (rule round_half_even_lower, rule round_half_even_upper)
  then have b: "\<bar>r - x * p\<bar> \<le> 1 / 2" by linarith
  have "py_round x n - x = (r - x * p) / p"
    using p by (simp add: py_round_def r_def p_def field_simps)
  then have "\<bar>py_round x n - x\<bar> = \<bar>r - x * p\<bar> / p"
    using p by (simp add: abs_divide)
  also have "\<dots> \<le> (1 / 2) / p"
    by (rule divide_right_mono) (use b p in simp_all)
  finally show ?thesis by (simp add: p_def)
qed

lemma build_example_config: "build_config example_entry example_stored = Inr example_config"
  by (simp add: build_config_def example_defs example_config_def HeatingMode_def
      RefillStrategy_def strategy_defs mode_defs TANK_SIZES_capacity_def)

subsection \<open>The example, evaluated\<close>

lemmas round_defs = py_round_def round_half_even_def Let_def

lemma example_tank_eval: "calculate_tank_state example_stored example_config = example_tank"
  by (simp add: calculate_tank_state_def example_defs example_config_def example_tank_def
      LP_GAS_KG_TO_LITERS_def round_defs)

lemma example_consumption_eval:
  "calculate_consumption example_stored example_now example_tank = Inr example_consumption"
  by (simp add: calculate_consumption_def example_defs example_tank_def
      example_consumption_def datetime_sub_def timedelta_days_def round_defs)

lemma example_projection_eval:
  "calculate_projection example_stored example_now example_config example_tank
     example_consumption = Inr example_projection"
  by (simp add: calculate_projection_def calculate_recommended_liters_def strategy_defs
      truediv_def timedelta_of_days_def example_defs example_config_def example_tank_def
      example_consumption_def example_projection_def round_defs)

lemma example_solar_eval:
  "calculate_solar example_stored example_config example_consumption = example_solar"
  by (simp add: calculate_solar_def mode_defs WATER_HEATING_BASE_PERCENTAGE_def
      example_defs example_config_def example_consumption_def example_solar_def round_defs)

lemma example_refresh:
  "async_update_data example_now example_coordinator =
     Inr (example_data, example_coordinator\<lparr> stored := example_stored_march \<rparr>)"
proof -
  have s: "calculate_strategy example_config example_consumption =
      Inr \<lparr> strat_current = ''fill_complete'',
            strat_monthly_cost = 139884 / 100,
            strat_refills_per_month = 134 / 100,
            strat_vs_cylinders = - (81484 / 100) \<rparr>"
    by (simp add: calculate_strategy_def truediv_def CYLINDER_MONTHLY_COST_def
        example_config_def example_consumption_def round_defs)
  have u: "update_solar_roi (Some example_solar) example_now example_stored =
      example_stored_march"
    by (simp add: update_solar_roi_def example_stored_def example_stored_march_def)
  have l: "get_last_refill example_stored =
      \<lparr> last_date = Some example_refill_date,
        last_liters = Some 48,
        last_price_per_liter = Some (1088 / 100),
        last_total_cost = Some (52224 / 100) \<rparr>"
    by (simp add: get_last_refill_def example_stored_def example_refill_def)
  have c: "config_entry example_coordinator = example_entry"
    "stored example_coordinator = example_stored"
    by (simp_all add: example_coordinator_def)
  have h: "cfg_has_solar example_config" by (simp add: example_config_def)
  have r: "refill_history example_stored_march = [example_refill]"
    by (simp add: example_stored_march_def example_stored_def)
  show ?thesis
    unfolding async_update_data_def Let_def c build_example_config
    by (simp add: example_tank_eval example_consumption_eval example_projection_eval
        example_solar_eval s u l h r example_data_def)
qed

subsection \<open>Tank state\<close>

text \<open>
  Claim C9, as amended. The reported \<^verbatim>\<open>current_liters\<close> and \<^verbatim>\<open>current_kg\<close> are the
  roundings to two decimals of \<open>usable_capacity \<times> level / 100\<close> and of that quantity
  divided by 1.96. Multiplying the reported kilograms by 1.96 recovers the reported litres
  up to 0.0148 litres, the error of the two display roundings. This holds for every level
  and every usable capacity.
\<close>

theorem tank_state_display_rounding:
  "tank_current_liters (calculate_tank_state st config) =
      py_round (cfg_usable_capacity config * (current_level st / 100)) 2
   \<and> tank_current_kg (calculate_tank_state st config) =
      py_round (cfg_usable_capacity config * (current_level st / 100) / (196 / 100)) 2
   \<and> \<bar>tank_current_kg (calculate_tank_state st config) * (196 / 100)
        - tank_current_liters (calculate_tank_state st config)\<bar> \<le> 148 / 10000"
proof -
  define l where "l = cfg_usable_capacity config * (current_level st / 100)"
  have a: "tank_current_liters (calculate_tank_state st config) = py_round l 2"
    by (simp add: calculate_tank_state_def l_def Let_def)
  have b: "tank_current_kg (calculate_tank_state st config) = py_round (l / (196 / 100)) 2"
    by (simp add: calculate_tank_state_def l_def LP_GAS_KG_TO_LITERS_def Let_def mult.commute)
  define k where "k = l / (196 / 100)"
  define x where "x = py_round l 2"
  define y where "y = py_round k 2"
  have lk: "l = k * (196 / 100)" by (simp add: k_def)
  have "\<bar>x - l\<bar> \<le> 1 / (2 * 10 ^ 2)" unfolding x_def by (rule py_round_close)
  then have x: "\<bar>x - k * (196 / 100)\<bar> \<le> 1 / 200" by (simp add: lk)
  have "\<bar>y - k\<bar> \<le> 1 / (2 * 10 ^ 2)" unfolding y_def by (rule py_round_close)
  then have y: "\<bar>y - k\<bar> \<le> 1 / 200" by simp
  from x y have "\<bar>y * (196 / 100) - x\<bar> \<le> 148 / 10000" by linarith
  then have "\<bar>py_round (l / (196 / 100)) 2 * (196 / 100) - py_round l 2\<bar> \<le> 148 / 10000"
    by (simp only: x_def y_def k_def)
  then show ?thesis using a b by (simp add: l_def)
qed

text \<open>
  Claim C9 as stated fails: at a level of 0.01 percent of 96 usable litres the reported
  litres are 0.01 and not 0.0096, and the reported kilograms are 0, so that the way back
  gives 0 litres.
\<close>

theorem tank_state_roundtrip_counterexample:
  "tank_current_liters
      (calculate_tank_state (example_stored\<lparr>current_level := 1 / 100\<rparr>) example_config)
     = 1 / 100
   \<and> tank_current_liters
      (calculate_tank_state (example_stored\<lparr>current_level := 1 / 100\<rparr>) example_config)
     \<noteq> cfg_usable_capacity example_config * ((1 / 100) / 100)
   \<and> tank_current_kg
      (calculate_tank_state (example_stored\<lparr>current_level := 1 / 100\<rparr>) example_config)
       * LP_GAS_KG_TO_LITERS = 0"
  by (simp add: calculate_tank_state_def example_defs example_config_def py_round_def
      round_half_even_def LP_GAS_KG_TO_LITERS_def Let_def)

subsection \<open>Recommended litres\<close>

text \<open>A stored strategy that is no member of \<^verbatim>\<open>RefillStrategy\<close> does not reach
  \<^verbatim>\<open>_calculate_recommended_liters\<close> through a refresh: \<^verbatim>\<open>_build_config\<close> raises.\<close>

lemma unrecognized_strategy_rejected:
  assumes "refill_strategy st \<notin> {''fill_complete'', ''fixed_300'', ''fixed_400'', ''fixed_500'',
             ''fixed_600'', ''level_50'', ''level_60'', ''level_70'', ''custom''}"
  shows "build_config entry st = Inl ValueError"
  using assms
  by (auto simp: build_config_def RefillStrategy_def HeatingMode_def strategy_defs Let_def
      split: sum.splits)

text \<open>
  Claim C3. For a positive price per litre, \<^verbatim>\<open>_calculate_recommended_liters\<close> follows
  the strategy table: \<^verbatim>\<open>fill_complete\<close> gives \<open>max (usable_capacity - current_liters) 0\<close>;
  \<^verbatim>\<open>fixed_300\<close> to \<^verbatim>\<open>fixed_600\<close> give that amount of currency divided by the price;
  \<^verbatim>\<open>level_50\<close>, \<^verbatim>\<open>level_60\<close> and \<^verbatim>\<open>level_70\<close> give the litres missing to that
  fraction of the usable capacity, never less than 0; \<^verbatim>\<open>custom\<close> gives the stored
  custom amount divided by the price, with 400 for an absent (or zero) amount; every other
  strategy value gives the result of \<^verbatim>\<open>fill_complete\<close>.
\<close>

theorem recommended_liters_table:
  assumes "0 < price_per_liter"
  shows "calculate_recommended_liters st ''fill_complete'' usable_capacity current_liters
           price_per_liter = Inr (max (usable_capacity - current_liters) 0)
       \<and> calculate_recommended_liters st ''fixed_300'' usable_capacity current_liters
           price_per_liter = Inr (300 / price_per_liter)
       \<and> calculate_recommended_liters st ''fixed_400'' usable_capacity current_liters
           price_per_liter = Inr (400 / price_per_liter)
       \<and> calculate_recommended_liters st ''fixed_500'' usable_capacity current_liters
           price_per_liter = Inr (500 / price_per_liter)
       \<and> calculate_recommended_liters st ''fixed_600'' usable_capacity current_liters
           price_per_liter = Inr (600 / price_per_liter)
       \<and> calculate_recommended_liters st ''level_50'' usable_capacity current_liters
           price_per_liter = Inr (max (usable_capacity * (50 / 100) - current_liters) 0)
       \<and> calculate_recommended_liters st ''level_60'' usable_capacity current_liters
           price_per_liter = Inr (max (usable_capacity * (60 / 100) - current_liters) 0)
       \<and> calculate_recommended_liters st ''level_70'' usable_capacity current_liters
           price_per_liter = Inr (max (usable_capacity * (70 / 100) - current_liters) 0)
       \<and> calculate_recommended_liters st ''custom'' usable_capacity current_liters
           price_per_liter =
             Inr ((case custom_strategy_amount st of
                     None \<Rightarrow> 400
                   | Some a \<Rightarrow> if a = 0 then 400 else a) / price_per_liter)
       \<and> (strategy \<notin> {''fill_complete'', ''fixed_300'', ''fixed_400'', ''fixed_500'',
                        ''fixed_600'', ''level_50'', ''level_60'', ''level_70'', ''custom''}
            \<longrightarrow> calculate_recommended_liters st strategy usable_capacity current_liters
                  price_per_liter = Inr (max (usable_capacity - current_liters) 0))"
  using assms
  by (simp add: calculate_recommended_liters_def strategy_defs truediv_def Let_def)

theorem recommended_liters_table_witness:
  "(0::real) < 1088 / 100
   \<and> calculate_recommended_liters example_stored ''fixed_300'' 96 66 (1088 / 100)
       = Inr (300 / (1088 / 100))
   \<and> calculate_recommended_liters example_stored ''level_70'' 96 66 (1088 / 100)
       = Inr (max (96 * (70 / 100) - 66) 0)
   \<and> ''fixed_700'' \<notin> {''fill_complete'', ''fixed_300'', ''fixed_400'', ''fixed_500'',
                        ''fixed_600'', ''level_50'', ''level_60'', ''level_70'', ''custom''}
   \<and> calculate_recommended_liters example_stored ''fixed_700'' 96 66 (1088 / 100)
       = Inr (max (96 - 66) 0)"
  using recommended_liters_table [of "1088 / 100" example_stored 96 66 "''fixed_700''"]
  by simp

subsection \<open>Consumption\<close>

text \<open>What \<^verbatim>\<open>_calculate_consumption\<close> returns, when it returns, is computed from the local
  variable \<^verbatim>\<open>liters_consumed\<close>.\<close>

lemma liters_consumed_reported:
  assumes "refill_history st \<noteq> []"
    and "calculate_consumption st now tank = Inr c"
  shows "cons_liters_consumed c = py_round (liters_consumed st tank) 2
       \<and> cons_daily c = py_round (liters_consumed st tank / of_int (cons_days_since_refill c)) 2
       \<and> cons_monthly c =
           py_round (liters_consumed st tank / of_int (cons_days_since_refill c) * 30) 2"
  using assms
  by (auto simp: calculate_consumption_def liters_consumed_def Let_def less_max_iff_disj
      split: sum.splits)

text \<open>
  Claim C6. With a refill history that is not empty, whatever the current time is:
  whenever \<^verbatim>\<open>_calculate_consumption\<close> returns, \<^verbatim>\<open>days_since_refill\<close> is the larger of
  1 and the days between the current time and the date of the most recent refill, so it is
  at least 1, and the daily consumption is the litres consumed divided by it; it returns
  when the current time and that date are both aware (or both naive); when one is aware and
  the other naive the subtraction of the two raises \<^verbatim>\<open>TypeError\<close>; and in no case is
  there a division by zero.
\<close>

theorem days_since_refill_at_least_one:
  assumes "refill_history st \<noteq> []"
  shows "(\<forall>c. calculate_consumption st now tank = Inr c \<longrightarrow>
            cons_days_since_refill c =
              max (timedelta_days
                     (instant now - instant (refill_date (last (refill_history st))))) 1
          \<and> 1 \<le> cons_days_since_refill c
          \<and> cons_daily c =
              py_round
                (max (tank_usable_capacity tank *
                        ((case refill_level_after (last (refill_history st)) of
                            None \<Rightarrow> 100 | Some l \<Rightarrow> l) / 100)
                      - tank_usable_capacity tank * (current_level st / 100)) 0
                 / of_int (cons_days_since_refill c)) 2)
       \<and> (aware now = aware (refill_date (last (refill_history st))) \<longrightarrow>
            (\<exists>c. calculate_consumption st now tank = Inr c))
       \<and> (aware now \<noteq> aware (refill_date (last (refill_history st))) \<longrightarrow>
            calculate_consumption st now tank = Inl TypeError)
       \<and> calculate_consumption st now tank \<noteq> Inl ZeroDivisionError"
  using assms
  by (auto simp: calculate_consumption_def datetime_sub_def Let_def less_max_iff_disj)

theorem days_since_refill_at_least_one_witness:
  "refill_history example_stored \<noteq> []
   \<and> aware example_refill_date = aware (refill_date (last (refill_history example_stored)))
   \<and> timedelta_days
        (instant example_refill_date
         - instant (refill_date (last (refill_history example_stored)))) = 0
   \<and> (\<exists>c. calculate_consumption example_stored example_refill_date example_tank = Inr c
         \<and> cons_days_since_refill c = 1)
   \<and> timedelta_days
        (instant (example_refill_date\<lparr> instant := instant example_refill_date - 1 \<rparr>)
         - instant (refill_date (last (refill_history example_stored)))) = - 1
   \<and> (\<exists>c. calculate_consumption example_stored
              (example_refill_date\<lparr> instant := instant example_refill_date - 1 \<rparr>)
              example_tank = Inr c
         \<and> cons_days_since_refill c = 1)
   \<and> refill_history example_stored_naive \<noteq> []
   \<and> aware example_now \<noteq> aware (refill_date (last (refill_history example_stored_naive)))
   \<and> calculate_consumption example_stored_naive example_now example_tank = Inl TypeError"
proof -
  have h: "refill_history example_stored \<noteq> []" by (simp add: example_stored_def)
  have a: "aware example_refill_date
      = aware (refill_date (last (refill_history example_stored)))"
    "aware (example_refill_date\<lparr> instant := instant example_refill_date - 1 \<rparr>)
      = aware (refill_date (last (refill_history example_stored)))"
    by (simp_all add: example_defs)
  have t: "timedelta_days
        (instant example_refill_date
         - instant (refill_date (last (refill_history example_stored)))) = 0"
    "timedelta_days
        (instant (example_refill_date\<lparr> instant := instant example_refill_date - 1 \<rparr>)
         - instant (refill_date (last (refill_history example_stored)))) = - 1"
    by (simp_all add: example_defs timedelta_days_def)
  have hn: "refill_history example_stored_naive \<noteq> []"
    by (simp add: example_stored_naive_def)
  have an: "aware example_now
      \<noteq> aware (refill_date (last (refill_history example_stored_naive)))"
    by (simp add: example_stored_naive_def example_naive_date_def example_now_def)
  note w1 = days_since_refill_at_least_one [OF h, of example_refill_date example_tank]
  note w2 = days_since_refill_at_least_one [OF h,
      of "example_refill_date\<lparr> instant := instant example_refill_date - 1 \<rparr>" example_tank]
  note w3 = days_since_refill_at_least_one [OF hn, of example_now example_tank]
  from w1 a(1) t(1) have r1:
    "\<exists>c. calculate_consumption example_stored example_refill_date example_tank = Inr c
         \<and> cons_days_since_refill c = 1"
    by auto
  from w2 a(2) t(2) have r2:
    "\<exists>c. calculate_consumption example_stored
              (example_refill_date\<lparr> instant := instant example_refill_date - 1 \<rparr>)
              example_tank = Inr c
         \<and> cons_days_since_refill c = 1"
    by auto
  from w3 an have r3:
    "calculate_consumption example_stored_naive example_now example_tank = Inl TypeError"
    by blast
  show ?thesis using h a(1) t r1 r2 hn an r3 by simp
qed

text \<open>
  Claim C10. When the most recent refill record has no \<^verbatim>\<open>level_after\<close>, the consumption
  is computed exactly as if that record held a level of 100 percent, whatever the outcome:
  the local variable \<^verbatim>\<open>liters_consumed\<close> is
  \<open>max (usable_capacity \<times> 100 / 100 - current_liters) 0\<close>, where \<open>current_liters\<close> is
  \<open>usable_capacity \<times> current_level / 100\<close>, and the returned \<^verbatim>\<open>liters_consumed\<close> is its
  rounding to two decimals. The missing key raises nothing and does not count as zero.
\<close>

theorem missing_level_after_full_tank:
  assumes "refill_history st \<noteq> []"
    and "refill_level_after (last (refill_history st)) = None"
  shows "calculate_consumption st now tank =
           calculate_consumption
             (st\<lparr> refill_history :=
                    butlast (refill_history st)
                    @ [(last (refill_history st))\<lparr> refill_level_after := Some 100 \<rparr>] \<rparr>)
             now tank
       \<and> liters_consumed st tank =
           max (tank_usable_capacity tank * (100 / 100)
                - tank_usable_capacity tank * (current_level st / 100)) 0
       \<and> (\<forall>c. calculate_consumption st now tank = Inr c \<longrightarrow>
            cons_liters_consumed c =
              py_round
                (max (tank_usable_capacity tank * (100 / 100)
                      - tank_usable_capacity tank * (current_level st / 100)) 0) 2)
       \<and> (aware now = aware (refill_date (last (refill_history st))) \<longrightarrow>
            (\<exists>c. calculate_consumption st now tank = Inr c))"
  using assms
  by (auto simp: calculate_consumption_def liters_consumed_def datetime_sub_def Let_def)

theorem missing_level_after_full_tank_witness:
  "refill_history example_stored_no_level_after \<noteq> []
   \<and> refill_level_after (last (refill_history example_stored_no_level_after)) = None
   \<and> aware example_now
       = aware (refill_date (last (refill_history example_stored_no_level_after)))
   \<and> liters_consumed example_stored_no_level_after example_tank = 6400032 / 100000
   \<and> (\<exists>c. calculate_consumption example_stored_no_level_after example_now example_tank
             = Inr c
         \<and> cons_liters_consumed c = 64)"
proof -
  have h1: "refill_history example_stored_no_level_after \<noteq> []"
    by (simp add: example_stored_no_level_after_def)
  have h2: "refill_level_after (last (refill_history example_stored_no_level_after)) = None"
    by (simp add: example_stored_no_level_after_def)
  have a: "aware example_now
       = aware (refill_date (last (refill_history example_stored_no_level_after)))"
    by (simp add: example_stored_no_level_after_def example_defs)
  have v: "max (tank_usable_capacity example_tank * (100 / 100)
                - tank_usable_capacity example_tank
                  * (current_level example_stored_no_level_after / 100)) 0
      = 6400032 / 100000"
    by (simp add: example_tank_def example_stored_no_level_after_def)
  have r: "py_round (6400032 / 100000) 2 = 64"
    by (simp add: round_defs)
  note w = missing_level_after_full_tank [OF h1 h2, of example_now example_tank]
  from w have l0: "liters_consumed example_stored_no_level_after example_tank
      = max (tank_usable_capacity example_tank * (100 / 100)
             - tank_usable_capacity example_tank
               * (current_level example_stored_no_level_after / 100)) 0"
    by blast
  have l: "liters_consumed example_stored_no_level_after example_tank = 6400032 / 100000"
    by (simp only: l0 v)
  from w a obtain c where c0: "calculate_consumption example_stored_no_level_after
        example_now example_tank = Inr c"
    by blast
  from w c0 have "cons_liters_consumed c
      = py_round (max (tank_usable_capacity example_tank * (100 / 100)
                       - tank_usable_capacity example_tank
                         * (current_level example_stored_no_level_after / 100)) 0) 2"
    by blast
  then have "cons_liters_consumed c = 64" by (simp only: v r)
  with c0 have c: "\<exists>c. calculate_consumption example_stored_no_level_after
        example_now example_tank = Inr c \<and> cons_liters_consumed c = 64"
    by blast
  show ?thesis using h1 h2 a l c by blast
qed

subsection \<open>Projection\<close>

text \<open>With a usable capacity and a price that are not zero, the projection is computed.\<close>

lemma projection_computed:
  assumes "tank_usable_capacity tank \<noteq> 0" and "cfg_price_per_liter config \<noteq> 0"
  shows "\<exists>p. calculate_projection st now config tank consumption = Inr p"
  using assms
  by (simp add: calculate_projection_def calculate_recommended_liters_def truediv_def Let_def)

text \<open>
  Claim C4, as amended. For every projection that is computed: when the daily consumption
  is positive, \<^verbatim>\<open>days_remaining\<close> is \<open>current_liters / daily\<close> rounded to one decimal,
  \<^verbatim>\<open>weeks_remaining\<close> is \<open>current_liters / daily / 7\<close> rounded to one decimal, and
  \<^verbatim>\<open>next_refill_date\<close> is the current time plus \<open>current_liters / daily\<close> days; when it
  is zero the three are null; and \<^verbatim>\<open>resulting_level\<close> is
  \<open>min 100 ((current_liters + recommended_liters) / usable_capacity \<times> 100)\<close> rounded to one
  decimal, which is at most 100.
\<close>

theorem projection_rounded:
  assumes "calculate_projection st now config tank consumption = Inr p"
  shows "(0 < cons_daily consumption \<longrightarrow>
            proj_days_remaining p =
              Some (py_round (tank_current_liters tank / cons_daily consumption) 1)
          \<and> proj_weeks_remaining p =
              Some (py_round (tank_current_liters tank / cons_daily consumption / 7) 1)
          \<and> proj_next_refill_date p =
              Some (instant now
                    + timedelta_of_days (tank_current_liters tank / cons_daily consumption)))
       \<and> (cons_daily consumption = 0 \<longrightarrow>
            proj_days_remaining p = None \<and> proj_weeks_remaining p = None
          \<and> proj_next_refill_date p = None)
       \<and> (\<exists>r. calculate_recommended_liters st (cfg_refill_strategy config)
                  (tank_usable_capacity tank) (tank_current_liters tank)
                  (cfg_price_per_liter config) = Inr r
              \<and> proj_resulting_level p =
                  py_round (min 100 ((tank_current_liters tank + r)
                                       / tank_usable_capacity tank * 100)) 1)
       \<and> proj_resulting_level p \<le> 100"
proof -
  from assms obtain r q where
    r: "calculate_recommended_liters st (cfg_refill_strategy config)
          (tank_usable_capacity tank) (tank_current_liters tank)
          (cfg_price_per_liter config) = Inr r"
    and q: "truediv (tank_current_liters tank + r) (tank_usable_capacity tank) = Inr q"
    by (auto simp: calculate_projection_def Let_def split: sum.splits)
  from q have q': "q = (tank_current_liters tank + r) / tank_usable_capacity tank"
    by (auto simp: truediv_def split: if_splits)
  from assms r q have p: "p =
      \<lparr> proj_days_remaining =
          map_option (\<lambda>d. py_round d 1)
            (if cons_daily consumption > 0
             then Some (tank_current_liters tank / cons_daily consumption) else None),
        proj_weeks_remaining =
          map_option (\<lambda>w. py_round w 1)
            (map_option (\<lambda>d. d / 7)
              (if cons_daily consumption > 0
               then Some (tank_current_liters tank / cons_daily consumption) else None)),
        proj_next_refill_date =
          map_option (\<lambda>d. instant now + timedelta_of_days d)
            (if cons_daily consumption > 0
             then Some (tank_current_liters tank / cons_daily consumption) else None),
        proj_recommended_liters = py_round r 2,
        proj_recommended_cost = py_round (r * cfg_price_per_liter config) 2,
        proj_resulting_level = py_round (min (q * 100) 100) 1 \<rparr>"
    by (simp add: calculate_projection_def Let_def)
  have le: "proj_resulting_level p \<le> 100"
  proof -
    have "py_round (min (q * 100) 100) 1 \<le> 100"
      by (rule py_round_1_le_100) simp
    then show ?thesis unfolding p by simp
  qed
  have rl: "proj_resulting_level p =
      py_round (min 100 ((tank_current_liters tank + r) / tank_usable_capacity tank * 100)) 1"
    unfolding p q' by (simp add: min.commute)
  show ?thesis
    using r rl le by (simp add: p)
qed

theorem projection_rounded_witness:
  "calculate_projection example_stored example_now example_config example_tank
     example_consumption = Inr example_projection
   \<and> 0 < cons_daily example_consumption
   \<and> proj_days_remaining example_projection =
       Some (py_round (tank_current_liters example_tank / cons_daily example_consumption) 1)
   \<and> proj_resulting_level example_projection \<le> 100
   \<and> calculate_projection example_stored example_now example_config example_tank
       (example_consumption\<lparr> cons_daily := 0 \<rparr>) =
       Inr (example_projection\<lparr> proj_days_remaining := None, proj_weeks_remaining := None,
                                  proj_next_refill_date := None \<rparr>)
   \<and> cons_daily (example_consumption\<lparr> cons_daily := 0 \<rparr>) = 0
   \<and> proj_next_refill_date
        (example_projection\<lparr> proj_days_remaining := None, proj_weeks_remaining := None,
                               proj_next_refill_date := None \<rparr>) = None"
proof -
  have z: "calculate_projection example_stored example_now example_config example_tank
       (example_consumption\<lparr> cons_daily := 0 \<rparr>) =
       Inr (example_projection\<lparr> proj_days_remaining := None, proj_weeks_remaining := None,
                                  proj_next_refill_date := None \<rparr>)"
    by (simp add: calculate_projection_def calculate_recommended_liters_def strategy_defs
        truediv_def example_defs example_config_def example_tank_def
        example_consumption_def example_projection_def round_defs)
  have d: "0 < cons_daily example_consumption"
    by (simp add: example_consumption_def)
  have d0: "cons_daily (example_consumption\<lparr> cons_daily := 0 \<rparr>) = 0"
    by simp
  show ?thesis
    using projection_rounded [OF example_projection_eval] projection_rounded [OF z] d d0
      example_projection_eval z
    by simp
qed

text \<open>
  Claim C4 as stated fails by the rounding: the refresh of the example reports 66 litres
  and a daily consumption of 4.29, and \<^verbatim>\<open>days_remaining\<close> is 15.4, not 66 / 4.29.
\<close>

theorem projection_counterexample:
  "(case async_update_data example_now example_coordinator of
      Inl e \<Rightarrow> False
    | Inr (d, c') \<Rightarrow>
        tank_current_liters (data_tank d) = 66
        \<and> cons_daily (data_consumption d) = 429 / 100
        \<and> proj_days_remaining (data_projection d) = Some (154 / 10)
        \<and> proj_days_remaining (data_projection d)
            \<noteq> Some (tank_current_liters (data_tank d) / cons_daily (data_consumption d)))"
  unfolding example_refresh
  by (simp add: example_data_def example_tank_def example_consumption_def
      example_projection_def)

subsection \<open>Solar estimate\<close>

text \<open>
  Claim C7, as amended. \<^verbatim>\<open>months_to_payback\<close> is 0 when the accumulated return has
  reached the investment; otherwise, when the monthly savings (before their own rounding)
  are positive, it is \<open>(solar_investment - roi_accumulated) / savings_monthly\<close> rounded to
  one decimal; otherwise it is null. The reported \<^verbatim>\<open>savings_monthly\<close> is the rounding of
  the same savings to two decimals.
\<close>

theorem months_to_payback_rounded:
  "(let coverage =
          (if cfg_heating_mode config = SOLAR_GAS_HYBRID then cfg_solar_efficiency config / 100
           else if cfg_heating_mode config = SOLAR_ONLY then 1 else 0);
        savings_monthly =
          cons_monthly consumption * (WATER_HEATING_BASE_PERCENTAGE / 100) * coverage
          * cfg_price_per_liter config;
        roi_accumulated = solar_roi_accumulated st;
        solar_investment = cfg_solar_investment config
    in solar_months_to_payback (calculate_solar st config consumption) =
         (if roi_accumulated \<ge> solar_investment then Some 0
          else if savings_monthly > 0
          then Some (py_round ((solar_investment - roi_accumulated) / savings_monthly) 1)
          else None)
       \<and> solar_savings_monthly (calculate_solar st config consumption) =
           py_round savings_monthly 2)"
  unfolding calculate_solar_def Let_def
  by (auto simp: py_round_zero)

text \<open>
  Claim C7 as stated fails by the rounding: the refresh of the example, with an investment
  of 15000 and 5000 accumulated, reports monthly savings of 391.68 and 25.5 months to
  payback, which is neither 10000 / 391.68 nor 10000 divided by the savings before
  rounding.
\<close>

theorem months_to_payback_counterexample:
  "(case async_update_data example_now example_coordinator of
      Inl e \<Rightarrow> False
    | Inr (d, c') \<Rightarrow>
        (case data_solar d of
           None \<Rightarrow> False
         | Some s \<Rightarrow>
             solar_roi_accumulated (stored example_coordinator) = 5000
             \<and> cfg_solar_investment (data_config d) = 15000
             \<and> solar_savings_monthly s = 39168 / 100
             \<and> solar_months_to_payback s = Some (255 / 10)
             \<and> solar_months_to_payback s \<noteq> Some ((15000 - 5000) / (39168 / 100))
             \<and> solar_months_to_payback s
                 \<noteq> Some ((15000 - 5000)
                           / (12857 / 100 * (40 / 100) * (70 / 100) * (1088 / 100)))))"
proof -
  have r: "solar_roi_accumulated (stored example_coordinator) = 5000"
    by (simp add: example_coordinator_def example_stored_def)
  show ?thesis
    unfolding example_refresh r
    by (simp add: example_data_def example_solar_def example_config_def)
qed


subsection \<open>What a refresh leaves alone\<close>

lemma build_config_usable_capacity:
  "build_config entry st = Inr config \<Longrightarrow>
     cfg_usable_capacity config = entry_usable_capacity entry"
  by (auto simp: build_config_def entry_usable_capacity_def Let_def split: sum.splits)

lemma update_solar_roi_fields:
  "current_level (update_solar_roi s now st) = current_level st"
  "refill_history (update_solar_roi s now st) = refill_history st"
  "heating_mode (update_solar_roi s now st) = heating_mode st"
  "refill_strategy (update_solar_roi s now st) = refill_strategy st"
  "custom_strategy_amount (update_solar_roi s now st) = custom_strategy_amount st"
  by (simp_all add: update_solar_roi_def split: option.splits)

lemma async_update_data_result:
  "async_update_data now c = Inr (d, c') \<Longrightarrow>
     c' = c\<lparr> stored := update_solar_roi (data_solar d) now (stored c) \<rparr>"
  by (auto simp: async_update_data_def Let_def split: sum.splits)

lemma async_refresh_cases:
  "async_refresh now c = c
   \<or> (\<exists>s. async_refresh now c = c\<lparr> stored := update_solar_roi s now (stored c) \<rparr>)"
  by (auto simp: async_refresh_def dest: async_update_data_result split: sum.splits prod.splits)

lemma async_refresh_fields:
  "config_entry (async_refresh now c) = config_entry c"
  "current_level (stored (async_refresh now c)) = current_level (stored c)"
  "refill_history (stored (async_refresh now c)) = refill_history (stored c)"
  "heating_mode (stored (async_refresh now c)) = heating_mode (stored c)"
  "refill_strategy (stored (async_refresh now c)) = refill_strategy (stored c)"
  "custom_strategy_amount (stored (async_refresh now c)) = custom_strategy_amount (stored c)"
  using async_refresh_cases [of now c]
  by (auto simp: update_solar_roi_fields)

text \<open>A refill recorded with a naive date is reachable through the service and makes every
  later refresh fail: \<^verbatim>\<open>async_record_refill\<close> stores the date as it is, and the
  subtraction in \<^verbatim>\<open>_calculate_consumption\<close> raises.\<close>

lemma naive_refill_date_fails_refresh:
  assumes "async_record_refill liters price (Some d) now c = Inr c'"
    and "\<not> aware d" and "aware now'"
  shows "async_update_data now' c' = Inl TypeError"
proof -
  from assms(1) obtain config where
    b: "build_config (config_entry c) (stored c) = Inr config"
    by (auto simp: async_record_refill_def Let_def split: sum.splits)
  from assms(1) have e: "config_entry c' = config_entry c"
    and m: "heating_mode (stored c') = heating_mode (stored c)"
    and r: "refill_strategy (stored c') = refill_strategy (stored c)"
    and h: "refill_history (stored c') \<noteq> []"
    and l: "refill_date (last (refill_history (stored c'))) = d"
    by (auto simp: async_record_refill_def Let_def async_refresh_fields last_drop
        MAX_REFILL_HISTORY_def split: sum.splits if_splits)
  from b e m r obtain config' where
    b': "build_config (config_entry c') (stored c') = Inr config'"
    by (auto simp: build_config_def Let_def split: sum.splits)
  have "calculate_consumption (stored c') now' (calculate_tank_state (stored c') config')
      = Inl TypeError"
    using h l assms(2,3) by (simp add: calculate_consumption_def datetime_sub_def Let_def)
  then show ?thesis by (simp add: async_update_data_def Let_def b')
qed

subsection \<open>Recording a refill\<close>

text \<open>
  Claim C2, as amended. With a configuration that builds and a positive usable capacity,
  \<^verbatim>\<open>async_record_refill\<close> succeeds; it appends one record whose \<^verbatim>\<open>level_before\<close> is
  the prior level rounded to one decimal and whose \<^verbatim>\<open>level_after\<close> is
  \<open>min ((prior_liters + liters) / usable_capacity \<times> 100) 100\<close> rounded to one decimal; it
  keeps the 50 most recent records, dropping the oldest first; and it sets
  \<^verbatim>\<open>current_level\<close> to that minimum, not rounded. The refresh that follows changes
  neither the history nor the level.
\<close>

theorem record_refill_effect:
  assumes "build_config (config_entry c) (stored c) = Inr config"
    and "0 < cfg_usable_capacity config"
  shows "\<exists>c'. async_record_refill liters price_per_liter d now c = Inr c'
          \<and> (let usable_capacity = cfg_usable_capacity config;
                  level_before = current_level (stored c);
                  level_after =
                    min ((usable_capacity * (level_before / 100) + liters)
                           / usable_capacity * 100) 100;
                  entry =
                    \<lparr> refill_date = (case d of None \<Rightarrow> now | Some t \<Rightarrow> t),
                      refill_liters = liters,
                      refill_price_per_liter = price_per_liter,
                      refill_total_cost = py_round (liters * price_per_liter) 2,
                      refill_level_before = py_round level_before 1,
                      refill_level_after = Some (py_round level_after 1) \<rparr>;
                  history = refill_history (stored c) @ [entry]
              in refill_history (stored c') = drop (length history - 50) history
                 \<and> last (refill_history (stored c')) = entry
                 \<and> length (refill_history (stored c')) = min 50 (length history)
                 \<and> current_level (stored c') = level_after)"
proof -
  have u: "cfg_usable_capacity config \<noteq> 0" using assms(2) by simp
  show ?thesis
    using assms(1) u
    by (simp add: async_record_refill_def truediv_def Let_def async_refresh_fields
        MAX_REFILL_HISTORY_def last_drop min_def)
qed

lemma build_example_low:
  "build_config (config_entry example_low) (stored example_low) = Inr example_config"
  by (simp add: example_low_def build_config_def example_defs example_config_def
      HeatingMode_def RefillStrategy_def strategy_defs mode_defs TANK_SIZES_capacity_def)

theorem record_refill_effect_witness:
  "build_config (config_entry example_low) (stored example_low) = Inr example_config
   \<and> 0 < cfg_usable_capacity example_config
   \<and> (\<exists>c'. async_record_refill 50 11 None example_now example_low = Inr c'
         \<and> refill_history (stored c') =
             [example_refill,
              \<lparr> refill_date = example_now, refill_liters = 50, refill_price_per_liter = 11,
                refill_total_cost = 550, refill_level_before = 20,
                refill_level_after = Some (721 / 10) \<rparr>]
         \<and> current_level (stored c') = 865 / 12)"
proof -
  have u: "0 < cfg_usable_capacity example_config" by (simp add: example_config_def)
  have l: "current_level (stored example_low) = 20"
    "refill_history (stored example_low) = [example_refill]"
    by (simp_all add: example_low_def example_stored_def)
  have r: "py_round 550 2 = 550" "py_round 20 (Suc 0) = 20"
    "py_round (865 / 12) (Suc 0) = 721 / 10"
    by (simp_all add: round_defs)
  show ?thesis
    using record_refill_effect [OF build_example_low u, of 50 11 None example_now]
    by (auto simp add: build_example_low example_config_def l r Let_def)
qed

text \<open>
  Claim C2 as stated fails by the rounding: a refill of 50 litres at 20 percent of 96
  usable litres sets the level to 865/12 (72.083...), and the record holds 72.1.
\<close>

theorem record_refill_counterexample:
  "(case async_record_refill 50 11 None example_now example_low of
      Inl e \<Rightarrow> False
    | Inr c' \<Rightarrow>
        current_level (stored example_low) = 20
        \<and> min ((96 * (20 / 100) + 50) / 96 * 100) 100 = (865 / 12 :: real)
        \<and> current_level (stored c') = 865 / 12
        \<and> refill_level_after (last (refill_history (stored c'))) = Some (721 / 10)
        \<and> refill_level_after (last (refill_history (stored c')))
            \<noteq> Some (min ((96 * (20 / 100) + 50) / 96 * 100) 100))"
proof -
  have l: "current_level (stored example_low) = 20"
    "refill_history (stored example_low) = [example_refill]"
    by (simp_all add: example_low_def example_stored_def)
  have r: "py_round (865 / 12) (Suc 0) = 721 / 10"
    by (simp add: round_defs)
  show ?thesis
    by (simp add: async_record_refill_def build_example_low example_config_def truediv_def
        l r Let_def async_refresh_fields MAX_REFILL_HISTORY_def)
qed

subsection \<open>The level stays between 0 and 100\<close>

lemma async_record_refill_level:
  assumes "async_record_refill liters price d now c = Inr c'"
    and "0 < entry_usable_capacity (config_entry c)"
    and "0 \<le> current_level (stored c)" and "0 \<le> liters"
  shows "0 \<le> current_level (stored c') \<and> current_level (stored c') \<le> 100
       \<and> config_entry c' = config_entry c"
proof -
  from assms(1) obtain config where
    b: "build_config (config_entry c) (stored c) = Inr config"
    by (auto simp: async_record_refill_def Let_def split: sum.splits)
  define u where "u = cfg_usable_capacity config"
  have u: "0 < u"
    using build_config_usable_capacity [OF b] assms(2) by (simp add: u_def)
  define q where "q = (u * (current_level (stored c) / 100) + liters) / u"
  have "0 \<le> u * (current_level (stored c) / 100) + liters"
    using u assms(3,4) by simp
  then have q: "0 \<le> q" using u by (simp add: q_def)
  from assms(1) b u have "current_level (stored c') = min (q * 100) 100"
    and "config_entry c' = config_entry c"
    by (auto simp: async_record_refill_def truediv_def Let_def async_refresh_fields
        u_def q_def split: if_splits)
  then show ?thesis using q by simp
qed

lemma perform_level:
  assumes "valid_call x"
    and "0 < entry_usable_capacity (config_entry c)"
    and "0 \<le> current_level (stored c)" and "current_level (stored c) \<le> 100"
  shows "0 \<le> current_level (stored (perform (now, x) c))
       \<and> current_level (stored (perform (now, x) c)) \<le> 100
       \<and> entry_usable_capacity (config_entry (perform (now, x) c))
           = entry_usable_capacity (config_entry c)"
proof (cases x)
  case (RecordRefill liters price d)
  show ?thesis
  proof (cases "async_record_refill liters price d now c")
    case (Inl e)
    then show ?thesis using RecordRefill assms by simp
  next
    case (Inr c')
    from async_record_refill_level [OF Inr assms(2,3)] assms(1) RecordRefill Inr
    show ?thesis by simp
  qed
next
  case (UpdatePrice price)
  then show ?thesis
    using assms
    by (simp add: async_update_price_def async_refresh_fields entry_usable_capacity_def)
qed (use assms in \<open>simp_all add: async_update_level_def async_set_heating_mode_def
      async_set_strategy_def async_refresh_fields Let_def\<close>)

lemma run_level:
  assumes "\<forall>x \<in> set calls. valid_call (snd x)"
    and "0 < entry_usable_capacity (config_entry c)"
    and "0 \<le> current_level (stored c)" and "current_level (stored c) \<le> 100"
  shows "0 \<le> current_level (stored (run calls c))
       \<and> current_level (stored (run calls c)) \<le> 100"
  using assms
proof (induction calls arbitrary: c)
  case Nil
  then show ?case by simp
next
  case (Cons x xs)
  obtain now k where x: "x = (now, k)" by (cases x)
  from Cons.prems have v: "valid_call k" by (simp add: x)
  note p = perform_level [OF v Cons.prems(2,3,4), of now]
  have "0 \<le> current_level (stored (run xs (perform x c)))
       \<and> current_level (stored (run xs (perform x c))) \<le> 100"
    using Cons.prems(1,2) p by (intro Cons.IH) (simp_all add: x)
  then show ?case by simp
qed

text \<open>
  Claim C5. From the initial state of a config entry whose configuration builds with a
  positive usable capacity and whose initial level lies between 0 and 100, every run of
  calls that the service schemas let through (the five operations, and refreshes) ends
  with \<open>0 \<le> current_level \<le> 100\<close>. \<^verbatim>\<open>async_update_level\<close> stores its argument clamped
  into that range, whatever the argument.
\<close>

theorem current_level_invariant:
  assumes "build_config entry (load_defaults entry) = Inr config"
    and "0 < cfg_usable_capacity config"
    and "0 \<le> conf_initial_level entry" and "conf_initial_level entry \<le> 100"
    and "\<forall>x \<in> set calls. valid_call (snd x)"
  shows "0 \<le> current_level (stored (run calls (initial entry)))
       \<and> current_level (stored (run calls (initial entry))) \<le> 100
       \<and> current_level (stored (async_update_level level_percent now c))
           = max 0 (min 100 level_percent)"
proof -
  have u: "0 < entry_usable_capacity (config_entry (initial entry))"
    using build_config_usable_capacity [OF assms(1)] assms(2) by (simp add: initial_def)
  have l: "0 \<le> current_level (stored (initial entry))"
    "current_level (stored (initial entry)) \<le> 100"
    using assms(3,4) by (simp_all add: initial_def load_defaults_def)
  have "current_level (stored (async_update_level level_percent now c))
           = max 0 (min 100 level_percent)"
    by (simp add: async_update_level_def async_refresh_fields Let_def)
  then show ?thesis using run_level [OF assms(5) u l] by simp
qed

lemma build_example_initial:
  "build_config example_entry (load_defaults example_entry) = Inr example_config"
  by (simp add: build_config_def load_defaults_def example_defs example_config_def
      HeatingMode_def RefillStrategy_def strategy_defs mode_defs TANK_SIZES_capacity_def)

theorem current_level_invariant_witness:
  "build_config example_entry (load_defaults example_entry) = Inr example_config
   \<and> 0 < cfg_usable_capacity example_config
   \<and> 0 \<le> conf_initial_level example_entry \<and> conf_initial_level example_entry \<le> 100
   \<and> valid_call (RecordRefill 50 11 None) \<and> valid_call (UpdateLevel (1 / 3))
   \<and> 0 \<le> current_level (stored (run [(example_now, RecordRefill 50 11 None),
                                         (example_now, UpdateLevel (1 / 3))]
                                        (initial example_entry)))
   \<and> current_level (stored (run [(example_now, RecordRefill 50 11 None),
                                   (example_now, UpdateLevel (1 / 3))]
                                  (initial example_entry))) \<le> 100
   \<and> current_level (stored (async_update_level 150 example_now example_coordinator)) = 100"
proof -
  have u: "0 < cfg_usable_capacity example_config" by (simp add: example_config_def)
  have i: "0 \<le> conf_initial_level example_entry" "conf_initial_level example_entry \<le> 100"
    by (simp_all add: example_entry_def)
  have v: "\<forall>x \<in> set [(example_now, RecordRefill 50 11 None),
                        (example_now, UpdateLevel (1 / 3))]. valid_call (snd x)"
    by simp
  show ?thesis
    using current_level_invariant [OF build_example_initial u i v,
            of 150 example_now example_coordinator]
      build_example_initial u i
    by simp
qed

subsection \<open>The accumulated solar return never decreases\<close>

lemma cons_monthly_nonneg:
  assumes "calculate_consumption st now tank = Inr c"
  shows "0 \<le> cons_monthly c"
proof (cases "refill_history st = []")
  case True
  then show ?thesis using assms by (auto simp: calculate_consumption_def)
next
  case False
  have d: "0 < cons_days_since_refill c"
    using False assms
    by (auto simp: calculate_consumption_def Let_def less_max_iff_disj split: sum.splits)
  have l: "0 \<le> liters_consumed st tank" by (simp add: liters_consumed_def Let_def)
  have "0 \<le> liters_consumed st tank / of_int (cons_days_since_refill c) * 30"
    using l d by simp
  then have "0 \<le> py_round
      (liters_consumed st tank / of_int (cons_days_since_refill c) * 30) 2"
    by (rule py_round_nonneg)
  then show ?thesis using liters_consumed_reported [OF False assms] by simp
qed

lemma savings_monthly_nonneg:
  assumes "0 \<le> cfg_price_per_liter config" and "0 \<le> cfg_solar_efficiency config"
    and "0 \<le> cons_monthly consumption"
  shows "0 \<le> solar_savings_monthly (calculate_solar st config consumption)"
proof -
  define coverage where
    "coverage = (if cfg_heating_mode config = SOLAR_GAS_HYBRID
                 then cfg_solar_efficiency config / 100
                 else if cfg_heating_mode config = SOLAR_ONLY then 1 else 0)"
  have c: "0 \<le> coverage" using assms(2) by (simp add: coverage_def)
  have "0 \<le> cons_monthly consumption * (WATER_HEATING_BASE_PERCENTAGE / 100) * coverage
            * cfg_price_per_liter config"
    using assms(1,3) c by (simp add: WATER_HEATING_BASE_PERCENTAGE_def)
  then have "0 \<le> py_round (cons_monthly consumption * (WATER_HEATING_BASE_PERCENTAGE / 100)
            * coverage * cfg_price_per_liter config) 2"
    by (rule py_round_nonneg)
  then show ?thesis by (simp add: calculate_solar_def Let_def coverage_def)
qed

lemma update_solar_roi_mono:
  assumes "\<And>s. sopt = Some s \<Longrightarrow> 0 \<le> solar_savings_monthly s"
  shows "solar_roi_accumulated st \<le> solar_roi_accumulated (update_solar_roi sopt now st)"
  using assms by (auto simp: update_solar_roi_def split: option.splits)

lemma async_refresh_roi_mono:
  assumes "0 \<le> conf_price_per_liter (config_entry c)"
    and "0 \<le> conf_solar_efficiency (config_entry c)"
  shows "solar_roi_accumulated (stored c) \<le> solar_roi_accumulated (stored (async_refresh now c))"
proof (cases "async_update_data now c")
  case (Inl e)
  then show ?thesis by (simp add: async_refresh_def)
next
  case (Inr r)
  obtain d c' where r: "r = (d, c')" by (cases r)
  from Inr r obtain config cons where
    b: "build_config (config_entry c) (stored c) = Inr config"
    and k: "calculate_consumption (stored c) now
              (calculate_tank_state (stored c) config) = Inr cons"
    and s: "data_solar d =
      (if cfg_has_solar config
       then Some (calculate_solar (stored c) config cons)
       else None)"
    by (auto simp: async_update_data_def Let_def split: sum.splits)
  from b have p: "cfg_price_per_liter config = conf_price_per_liter (config_entry c)"
    "cfg_solar_efficiency config = conf_solar_efficiency (config_entry c)"
    by (auto simp: build_config_def Let_def split: sum.splits)
  have n: "\<And>x. data_solar d = Some x \<Longrightarrow> 0 \<le> solar_savings_monthly x"
    using s assms p cons_monthly_nonneg [OF k]
    by (auto simp: savings_monthly_nonneg split: if_splits)
  have "stored c' = update_solar_roi (data_solar d) now (stored c)"
    using async_update_data_result Inr r by fastforce
  then show ?thesis
    using update_solar_roi_mono [of "data_solar d" "stored c" now, OF n] Inr r
    by (simp add: async_refresh_def)
qed

lemma perform_roi_mono:
  assumes "price_nonneg k"
    and "0 \<le> conf_price_per_liter (config_entry c)"
    and "0 \<le> conf_solar_efficiency (config_entry c)"
  shows "solar_roi_accumulated (stored c) \<le> solar_roi_accumulated (stored (perform (now, k) c))
       \<and> 0 \<le> conf_price_per_liter (config_entry (perform (now, k) c))
       \<and> 0 \<le> conf_solar_efficiency (config_entry (perform (now, k) c))"
proof (cases k)
  case Refresh
  then show ?thesis
    using assms async_refresh_roi_mono [OF assms(2,3), of now]
    by (simp add: async_refresh_fields)
next
  case (RecordRefill liters price d)
  show ?thesis
  proof (cases "async_record_refill liters price d now c")
    case (Inl e)
    then show ?thesis using RecordRefill assms by simp
  next
    case (Inr c')
    then obtain st' where c': "c' = async_refresh now (c\<lparr> stored := st' \<rparr>)"
      and st': "solar_roi_accumulated st' = solar_roi_accumulated (stored c)"
      by (auto simp: async_record_refill_def Let_def split: sum.splits)
    have "solar_roi_accumulated (stored (c\<lparr> stored := st' \<rparr>))
        \<le> solar_roi_accumulated (stored (async_refresh now (c\<lparr> stored := st' \<rparr>)))"
      by (rule async_refresh_roi_mono) (use assms in simp_all)
    then show ?thesis
      using RecordRefill Inr c' st' assms by (simp add: async_refresh_fields)
  qed
next
  case (UpdateLevel l)
  have "solar_roi_accumulated
          (stored (c\<lparr> stored := (stored c)\<lparr> current_level := max 0 (min 100 l) \<rparr> \<rparr>))
      \<le> solar_roi_accumulated
          (stored (async_refresh now
             (c\<lparr> stored := (stored c)\<lparr> current_level := max 0 (min 100 l) \<rparr> \<rparr>)))"
    by (rule async_refresh_roi_mono) (use assms in simp_all)
  then show ?thesis
    using UpdateLevel assms by (simp add: async_update_level_def Let_def async_refresh_fields)
next
  case (UpdatePrice p)
  have "solar_roi_accumulated
          (stored (c\<lparr> config_entry := (config_entry c)\<lparr> conf_price_per_liter := p \<rparr> \<rparr>))
      \<le> solar_roi_accumulated
          (stored (async_refresh now
             (c\<lparr> config_entry := (config_entry c)\<lparr> conf_price_per_liter := p \<rparr> \<rparr>)))"
    by (rule async_refresh_roi_mono) (use assms UpdatePrice in simp_all)
  then show ?thesis
    using UpdatePrice assms by (simp add: async_update_price_def async_refresh_fields)
next
  case (SetHeatingMode m)
  have "solar_roi_accumulated (stored (c\<lparr> stored := (stored c)\<lparr> heating_mode := m \<rparr> \<rparr>))
      \<le> solar_roi_accumulated
          (stored (async_refresh now (c\<lparr> stored := (stored c)\<lparr> heating_mode := m \<rparr> \<rparr>)))"
    by (rule async_refresh_roi_mono) (use assms in simp_all)
  then show ?thesis
    using SetHeatingMode assms by (simp add: async_set_heating_mode_def async_refresh_fields)
next
  case (SetStrategy s a)
  define st' where
    "st' = (if s = CUSTOM \<and> a \<noteq> None
            then (stored c)\<lparr> refill_strategy := s, custom_strategy_amount := a \<rparr>
            else (stored c)\<lparr> refill_strategy := s \<rparr>)"
  have r: "solar_roi_accumulated st' = solar_roi_accumulated (stored c)"
    by (simp add: st'_def)
  have "solar_roi_accumulated (stored (c\<lparr> stored := st' \<rparr>))
      \<le> solar_roi_accumulated (stored (async_refresh now (c\<lparr> stored := st' \<rparr>)))"
    by (rule async_refresh_roi_mono) (use assms in simp_all)
  then show ?thesis
    using SetStrategy assms r
    by (auto simp: async_set_strategy_def Let_def async_refresh_fields st'_def)
qed

lemma run_roi_mono:
  assumes "\<forall>x \<in> set calls. price_nonneg (snd x)"
    and "0 \<le> conf_price_per_liter (config_entry c)"
    and "0 \<le> conf_solar_efficiency (config_entry c)"
  shows "solar_roi_accumulated (stored c) \<le> solar_roi_accumulated (stored (run calls c))
       \<and> 0 \<le> conf_price_per_liter (config_entry (run calls c))
       \<and> 0 \<le> conf_solar_efficiency (config_entry (run calls c))"
  using assms
proof (induction calls arbitrary: c)
  case Nil
  then show ?case by simp
next
  case (Cons x xs)
  obtain now k where x: "x = (now, k)" by (cases x)
  from Cons.prems have v: "price_nonneg k" by (simp add: x)
  note p = perform_roi_mono [OF v Cons.prems(2,3), of now]
  have "solar_roi_accumulated (stored (perform x c))
          \<le> solar_roi_accumulated (stored (run xs (perform x c)))
       \<and> 0 \<le> conf_price_per_liter (config_entry (run xs (perform x c)))
       \<and> 0 \<le> conf_solar_efficiency (config_entry (run xs (perform x c)))"
    using Cons.prems(1) p by (intro Cons.IH) (simp_all add: x)
  then show ?case using p by (simp add: x)
qed

lemma run_append: "run (xs @ ys) c = run ys (run xs c)"
  by (induction xs arbitrary: c) simp_all

text \<open>
  Claim C8. With a price per litre and a solar efficiency that are not negative (in the
  config entry and in every price update), \<^verbatim>\<open>solar_roi_accumulated\<close> never decreases
  along a run of refreshes and operations: it is at least its initial value after every
  prefix of the run and does not decrease from a prefix to the whole run.
\<close>

theorem solar_roi_monotone:
  assumes "0 \<le> conf_price_per_liter (config_entry c)"
    and "0 \<le> conf_solar_efficiency (config_entry c)"
    and "\<forall>x \<in> set (xs @ ys). price_nonneg (snd x)"
  shows "solar_roi_accumulated (stored c) \<le> solar_roi_accumulated (stored (run xs c))
       \<and> solar_roi_accumulated (stored (run xs c))
           \<le> solar_roi_accumulated (stored (run (xs @ ys) c))"
proof -
  from assms(3) have x: "\<forall>x \<in> set xs. price_nonneg (snd x)"
    and y: "\<forall>x \<in> set ys. price_nonneg (snd x)" by simp_all
  note a = run_roi_mono [OF x assms(1,2)]
  from a have p: "0 \<le> conf_price_per_liter (config_entry (run xs c))"
    and e: "0 \<le> conf_solar_efficiency (config_entry (run xs c))" by simp_all
  from run_roi_mono [OF y p e] a show ?thesis by (simp add: run_append)
qed

theorem solar_roi_monotone_witness:
  "0 \<le> conf_price_per_liter (config_entry example_coordinator)
   \<and> 0 \<le> conf_solar_efficiency (config_entry example_coordinator)
   \<and> price_nonneg Refresh \<and> price_nonneg (UpdatePrice 12)
   \<and> solar_roi_accumulated (stored example_coordinator)
       \<le> solar_roi_accumulated (stored (run [(example_now, Refresh)] example_coordinator))
   \<and> solar_roi_accumulated (stored (run [(example_now, Refresh)] example_coordinator))
       \<le> solar_roi_accumulated
            (stored (run ([(example_now, Refresh)] @ [(example_now, UpdatePrice 12)])
                       example_coordinator))"
proof -
  have p: "0 \<le> conf_price_per_liter (config_entry example_coordinator)"
    and e: "0 \<le> conf_solar_efficiency (config_entry example_coordinator)"
    by (simp_all add: example_coordinator_def example_entry_def)
  have v: "\<forall>x \<in> set ([(example_now, Refresh)] @ [(example_now, UpdatePrice 12)]).
             price_nonneg (snd x)"
    by simp
  show ?thesis
    using solar_roi_monotone [OF p e v] p e by simp
qed


subsection \<open>Accrual of the solar return\<close>

lemma calendar_month_eq:
  "calendar_month a = calendar_month b \<longleftrightarrow> \<not> (month a \<noteq> month b \<or> year a \<noteq> year b)"
  by (auto simp: calendar_month_def)

lemma update_solar_roi_same_month:
  assumes "last_solar_update st = Some l" and "calendar_month now = calendar_month l"
  shows "update_solar_roi sopt now st = st"
  using assms by (auto simp: update_solar_roi_def calendar_month_eq split: option.splits)

lemma update_solar_roi_first:
  assumes "last_solar_update st = None"
  shows "solar_roi_accumulated (update_solar_roi sopt now st) = solar_roi_accumulated st"
  using assms by (auto simp: update_solar_roi_def split: option.splits)

lemma update_solar_roi_last:
  "last_solar_update (update_solar_roi sopt now st) = last_solar_update st
   \<or> last_solar_update (update_solar_roi sopt now st) = Some now"
  by (auto simp: update_solar_roi_def split: option.splits)

lemma update_solar_roi_changed:
  assumes "solar_roi_accumulated (update_solar_roi sopt now st) \<noteq> solar_roi_accumulated st"
  shows "last_solar_update (update_solar_roi sopt now st) = Some now"
  using assms by (auto simp: update_solar_roi_def split: option.splits if_splits)

text \<open>Every call ends with at most one \<^verbatim>\<open>_update_solar_roi\<close>, on stored data whose two
  solar fields are those before the call.\<close>

lemma perform_solar:
  "\<exists>sopt st. solar_roi_accumulated st = solar_roi_accumulated (stored c)
     \<and> last_solar_update st = last_solar_update (stored c)
     \<and> stored (perform (now, k) c) = update_solar_roi sopt now st"
proof -
  have n: "\<And>st. update_solar_roi None now st = st" by (simp add: update_solar_roi_def)
  have r: "\<And>c1 :: coordinator.
      solar_roi_accumulated (stored c1) = solar_roi_accumulated (stored c)
      \<Longrightarrow> last_solar_update (stored c1) = last_solar_update (stored c)
      \<Longrightarrow> \<exists>sopt st. solar_roi_accumulated st = solar_roi_accumulated (stored c)
             \<and> last_solar_update st = last_solar_update (stored c)
             \<and> stored (async_refresh now c1) = update_solar_roi sopt now st"
  proof -
    fix c1 :: coordinator
    assume a: "solar_roi_accumulated (stored c1) = solar_roi_accumulated (stored c)"
      "last_solar_update (stored c1) = last_solar_update (stored c)"
    from async_refresh_cases [of now c1] show "\<exists>sopt st.
        solar_roi_accumulated st = solar_roi_accumulated (stored c)
        \<and> last_solar_update st = last_solar_update (stored c)
        \<and> stored (async_refresh now c1) = update_solar_roi sopt now st"
    proof
      assume "async_refresh now c1 = c1"
      then have "stored (async_refresh now c1) = update_solar_roi None now (stored c1)"
        by (simp add: n)
      with a show ?thesis by blast
    next
      assume "\<exists>s. async_refresh now c1 = c1\<lparr> stored := update_solar_roi s now (stored c1) \<rparr>"
      then obtain s where
        "async_refresh now c1 = c1\<lparr> stored := update_solar_roi s now (stored c1) \<rparr>" ..
      then have "stored (async_refresh now c1) = update_solar_roi s now (stored c1)"
        by simp
      with a show ?thesis by blast
    qed
  qed
  show ?thesis
  proof (cases k)
    case Refresh
    then show ?thesis using r [of c] by simp
  next
    case (RecordRefill liters price d)
    show ?thesis
    proof (cases "async_record_refill liters price d now c")
      case (Inl e)
      then have "stored (perform (now, k) c) = update_solar_roi None now (stored c)"
        using RecordRefill by (simp add: n)
      then show ?thesis by blast
    next
      case (Inr c')
      then obtain st' where c': "c' = async_refresh now (c\<lparr> stored := st' \<rparr>)"
        and st': "solar_roi_accumulated st' = solar_roi_accumulated (stored c)"
          "last_solar_update st' = last_solar_update (stored c)"
        by (auto simp: async_record_refill_def Let_def split: sum.splits)
      from r [of "c\<lparr> stored := st' \<rparr>"] st' c' RecordRefill Inr show ?thesis by simp
    qed
  next
    case (UpdateLevel l)
    from r [of "c\<lparr> stored := (stored c)\<lparr> current_level := max 0 (min 100 l) \<rparr> \<rparr>"]
    show ?thesis using UpdateLevel by (simp add: async_update_level_def Let_def)
  next
    case (UpdatePrice p)
    from r [of "c\<lparr> config_entry := (config_entry c)\<lparr> conf_price_per_liter := p \<rparr> \<rparr>"]
    show ?thesis using UpdatePrice by (simp add: async_update_price_def)
  next
    case (SetHeatingMode m)
    from r [of "c\<lparr> stored := (stored c)\<lparr> heating_mode := m \<rparr> \<rparr>"]
    show ?thesis using SetHeatingMode by (simp add: async_set_heating_mode_def)
  next
    case (SetStrategy s a)
    define st' where
      "st' = (if s = CUSTOM \<and> a \<noteq> None
              then (stored c)\<lparr> refill_strategy := s, custom_strategy_amount := a \<rparr>
              else (stored c)\<lparr> refill_strategy := s \<rparr>)"
    have "solar_roi_accumulated st' = solar_roi_accumulated (stored c)"
      "last_solar_update st' = last_solar_update (stored c)"
      by (simp_all add: st'_def)
    from r [of "c\<lparr> stored := st' \<rparr>"] this
    show ?thesis using SetStrategy by (auto simp: async_set_strategy_def Let_def st'_def)
  qed
qed

lemma perform_same_month:
  assumes "last_solar_update (stored c) = Some l" and "calendar_month now = calendar_month l"
  shows "solar_roi_accumulated (stored (perform (now, k) c)) = solar_roi_accumulated (stored c)
       \<and> last_solar_update (stored (perform (now, k) c)) = Some l"
proof -
  from perform_solar [of c now k] obtain sopt st where
    st: "solar_roi_accumulated st = solar_roi_accumulated (stored c)"
      "last_solar_update st = last_solar_update (stored c)"
    and p: "stored (perform (now, k) c) = update_solar_roi sopt now st" by blast
  from st assms have "update_solar_roi sopt now st = st"
    by (intro update_solar_roi_same_month) simp_all
  with p st assms show ?thesis by simp
qed

lemma perform_first:
  assumes "last_solar_update (stored c) = None"
  shows "solar_roi_accumulated (stored (perform (now, k) c)) = solar_roi_accumulated (stored c)"
proof -
  from perform_solar [of c now k] obtain sopt st where
    st: "solar_roi_accumulated st = solar_roi_accumulated (stored c)"
      "last_solar_update st = last_solar_update (stored c)"
    and p: "stored (perform (now, k) c) = update_solar_roi sopt now st" by blast
  from st assms p show ?thesis by (simp add: update_solar_roi_first)
qed

lemma perform_last:
  "last_solar_update (stored (perform (now, k) c)) = last_solar_update (stored c)
   \<or> last_solar_update (stored (perform (now, k) c)) = Some now"
proof -
  from perform_solar [of c now k] obtain sopt st where
    st: "last_solar_update st = last_solar_update (stored c)"
    and p: "stored (perform (now, k) c) = update_solar_roi sopt now st" by blast
  from update_solar_roi_last [of sopt now st] st p show ?thesis by simp
qed

lemma perform_changed:
  assumes "solar_roi_accumulated (stored (perform (now, k) c))
             \<noteq> solar_roi_accumulated (stored c)"
  shows "last_solar_update (stored (perform (now, k) c)) = Some now"
proof -
  from perform_solar [of c now k] obtain sopt st where
    st: "solar_roi_accumulated st = solar_roi_accumulated (stored c)"
    and p: "stored (perform (now, k) c) = update_solar_roi sopt now st" by blast
  from assms st p have "solar_roi_accumulated (update_solar_roi sopt now st)
      \<noteq> solar_roi_accumulated st" by simp
  from update_solar_roi_changed [OF this] p show ?thesis by simp
qed

lemma accrual_months_subset:
  "set (accrual_months calls c) \<subseteq> set (map (\<lambda>x. calendar_month (fst x)) calls)"
  by (induction calls arbitrary: c) auto

lemma accrual_months_after:
  assumes "last_solar_update (stored c) = Some l"
    and "sorted (calendar_month l # map (\<lambda>x. calendar_month (fst x)) calls)"
  shows "calendar_month l \<notin> set (accrual_months calls c) \<and> distinct (accrual_months calls c)"
  using assms
proof (induction calls arbitrary: c l)
  case Nil
  then show ?case by simp
next
  case (Cons x xs)
  obtain now k where x: "x = (now, k)" by (cases x)
  let ?c = "perform x c"
  from Cons.prems(2) have le: "calendar_month l \<le> calendar_month now"
    and s: "sorted (calendar_month now # map (\<lambda>x. calendar_month (fst x)) xs)"
    by (simp_all add: x)
  show ?case
  proof (cases "calendar_month now = calendar_month l")
    case True
    from perform_same_month [OF Cons.prems(1) True, of k]
    have same: "solar_roi_accumulated (stored ?c) = solar_roi_accumulated (stored c)"
      and last: "last_solar_update (stored ?c) = Some l" by (simp_all add: x)
    from s True have "sorted (calendar_month l # map (\<lambda>x. calendar_month (fst x)) xs)"
      by simp
    from Cons.IH [OF last this] same show ?thesis by simp
  next
    case False
    with le have lt: "calendar_month l < calendar_month now" by simp
    have l_notin: "calendar_month l \<notin> set (accrual_months xs ?c)"
    proof
      assume "calendar_month l \<in> set (accrual_months xs ?c)"
      then have "calendar_month l \<in> set (map (\<lambda>x. calendar_month (fst x)) xs)"
        using accrual_months_subset [of xs ?c] by blast
      with s have "calendar_month now \<le> calendar_month l" by auto
      with lt show False by simp
    qed
    from perform_last [of now k c] Cons.prems(1)
    have "last_solar_update (stored ?c) = Some l \<or> last_solar_update (stored ?c) = Some now"
      by (simp add: x)
    then show ?thesis
    proof
      assume last: "last_solar_update (stored ?c) = Some l"
      have unchanged: "solar_roi_accumulated (stored ?c) = solar_roi_accumulated (stored c)"
      proof (rule ccontr)
        assume "solar_roi_accumulated (stored ?c) \<noteq> solar_roi_accumulated (stored c)"
        from perform_changed [of now k c] this have "last_solar_update (stored ?c) = Some now"
          by (simp add: x)
        with last have "l = now" by simp
        with False show False by simp
      qed
      from s le have "sorted (calendar_month l # map (\<lambda>x. calendar_month (fst x)) xs)"
        by auto
      from Cons.IH [OF last this] unchanged show ?thesis by simp
    next
      assume last: "last_solar_update (stored ?c) = Some now"
      from Cons.IH [OF last s]
      have "calendar_month now \<notin> set (accrual_months xs ?c)"
        and "distinct (accrual_months xs ?c)" by simp_all
      with l_notin False show ?thesis by (auto simp: x)
    qed
  qed
qed

lemma accrual_months_distinct:
  assumes "sorted (map (\<lambda>x. calendar_month (fst x)) calls)"
  shows "distinct (accrual_months calls c)"
  using assms
proof (induction calls arbitrary: c)
  case Nil
  then show ?case by simp
next
  case (Cons x xs)
  obtain now k where x: "x = (now, k)" by (cases x)
  let ?c = "perform x c"
  from Cons.prems have s: "sorted (map (\<lambda>x. calendar_month (fst x)) xs)"
    and s': "sorted (calendar_month now # map (\<lambda>x. calendar_month (fst x)) xs)"
    by (simp_all add: x)
  show ?case
  proof (cases "solar_roi_accumulated (stored ?c) = solar_roi_accumulated (stored c)")
    case True
    with Cons.IH [OF s, of ?c] show ?thesis by simp
  next
    case False
    from perform_changed [of now k c] False
    have "last_solar_update (stored ?c) = Some now" by (simp add: x)
    from accrual_months_after [OF this s'] False show ?thesis by (simp add: x)
  qed
qed


text \<open>The second refresh of the example, in April, accrues the savings of 109.67.\<close>

lemma example_refresh_april:
  "async_update_data example_april (example_coordinator\<lparr> stored := example_stored_march \<rparr>) =
     Inr (example_data_april, example_coordinator\<lparr> stored := example_stored_april \<rparr>)"
proof -
  have b: "build_config example_entry example_stored_march = Inr example_config"
    by (simp add: build_config_def example_defs example_stored_march_def example_config_def
        HeatingMode_def RefillStrategy_def strategy_defs mode_defs TANK_SIZES_capacity_def)
  have t: "calculate_tank_state example_stored_march example_config = example_tank"
    by (simp add: calculate_tank_state_def example_defs example_stored_march_def
        example_config_def example_tank_def LP_GAS_KG_TO_LITERS_def round_defs)
  have c: "calculate_consumption example_stored_march example_april example_tank
      = Inr example_consumption_april"
    by (simp add: calculate_consumption_def example_defs example_stored_march_def
        example_april_def example_tank_def example_consumption_april_def
        datetime_sub_def timedelta_days_def round_defs)
  have p: "calculate_projection example_stored_march example_april example_config
      example_tank example_consumption_april =
      Inr \<lparr> proj_days_remaining = Some 55,
            proj_weeks_remaining = Some (79 / 10),
            proj_next_refill_date = Some 1716811200000000,
            proj_recommended_liters = 30,
            proj_recommended_cost = 3264 / 10,
            proj_resulting_level = 100 \<rparr>"
    by (simp add: calculate_projection_def calculate_recommended_liters_def strategy_defs
        truediv_def timedelta_of_days_def example_defs example_stored_march_def
        example_april_def example_config_def example_tank_def
        example_consumption_april_def round_defs)
  have s: "calculate_strategy example_config example_consumption_april =
      Inr \<lparr> strat_current = ''fill_complete'',
            strat_monthly_cost = 39168 / 100,
            strat_refills_per_month = 38 / 100,
            strat_vs_cylinders = 19232 / 100 \<rparr>"
    by (simp add: calculate_strategy_def truediv_def CYLINDER_MONTHLY_COST_def
        example_config_def example_consumption_april_def round_defs)
  have o: "calculate_solar example_stored_march example_config example_consumption_april
      = example_solar_april"
    by (simp add: calculate_solar_def mode_defs WATER_HEATING_BASE_PERCENTAGE_def
        example_defs example_stored_march_def example_config_def
        example_consumption_april_def example_solar_april_def round_defs)
  have u: "update_solar_roi (Some example_solar_april) example_april example_stored_march
      = example_stored_april"
    by (simp add: update_solar_roi_def example_stored_march_def example_stored_april_def
        example_stored_def example_solar_april_def example_now_def example_april_def)
  have e: "config_entry (example_coordinator\<lparr> stored := example_stored_march \<rparr>)
      = example_entry"
    "stored (example_coordinator\<lparr> stored := example_stored_march \<rparr>) = example_stored_march"
    by (simp_all add: example_coordinator_def)
  have h: "cfg_has_solar example_config" by (simp add: example_config_def)
  have r: "refill_history example_stored_april = [example_refill]"
    "get_last_refill example_stored_march = get_last_refill example_stored"
    by (simp_all add: example_stored_april_def example_stored_march_def example_stored_def
        get_last_refill_def)
  show ?thesis
    unfolding async_update_data_def Let_def e b
    by (simp add: t c p s o u h r example_data_april_def)
qed

text \<open>
  Claim C1. A refresh that computes the solar estimate persists this: when no month was
  recorded yet, it records the current time and leaves \<^verbatim>\<open>solar_roi_accumulated\<close>
  as it is; when one was recorded, it adds the \<^verbatim>\<open>savings_monthly\<close> of the estimate just
  computed and records the current time exactly when the month or the year of the current
  time differs from the recorded one, and changes nothing otherwise. Hence, along every
  run of refreshes and operations whose calendar months do not go back,
  \<^verbatim>\<open>solar_roi_accumulated\<close> is changed in at most one call of each calendar month, however
  many calls the month has.
\<close>

theorem solar_roi_accrual:
  "(async_update_data now c = Inr (d, c') \<and> data_solar d = Some s \<longrightarrow>
      (case last_solar_update (stored c) of
         None \<Rightarrow> stored c' = (stored c)\<lparr> last_solar_update := Some now \<rparr>
       | Some l \<Rightarrow>
           stored c' =
             (if month now \<noteq> month l \<or> year now \<noteq> year l
              then (stored c)\<lparr> solar_roi_accumulated :=
                                  solar_roi_accumulated (stored c) + solar_savings_monthly s,
                                last_solar_update := Some now \<rparr>
              else stored c)))
   \<and> (sorted (map (\<lambda>x. calendar_month (fst x)) calls) \<longrightarrow>
        distinct (accrual_months calls c0))"
proof (intro conjI impI)
  assume a: "async_update_data now c = Inr (d, c') \<and> data_solar d = Some s"
  then have "stored c' = update_solar_roi (Some s) now (stored c)"
    using async_update_data_result [of now c d c'] by simp
  then show "case last_solar_update (stored c) of
         None \<Rightarrow> stored c' = (stored c)\<lparr> last_solar_update := Some now \<rparr>
       | Some l \<Rightarrow>
           stored c' =
             (if month now \<noteq> month l \<or> year now \<noteq> year l
              then (stored c)\<lparr> solar_roi_accumulated :=
                                  solar_roi_accumulated (stored c) + solar_savings_monthly s,
                                last_solar_update := Some now \<rparr>
              else stored c)"
    by (simp add: update_solar_roi_def split: option.splits)
next
  assume "sorted (map (\<lambda>x. calendar_month (fst x)) calls)"
  then show "distinct (accrual_months calls c0)" by (rule accrual_months_distinct)
qed

theorem solar_roi_accrual_witness:
  "async_update_data example_now example_coordinator =
     Inr (example_data,
          example_coordinator\<lparr> stored := example_stored_march \<rparr>)
   \<and> last_solar_update (stored example_coordinator) = None
   \<and> solar_roi_accumulated example_stored_march
       = solar_roi_accumulated (stored example_coordinator)
   \<and> async_update_data example_april (example_coordinator\<lparr> stored := example_stored_march \<rparr>)
       = Inr (example_data_april, example_coordinator\<lparr> stored := example_stored_april \<rparr>)
   \<and> data_solar example_data_april = Some example_solar_april
   \<and> last_solar_update example_stored_march = Some example_now
   \<and> month example_april \<noteq> month example_now
   \<and> example_stored_april =
       example_stored_march
         \<lparr> solar_roi_accumulated :=
             solar_roi_accumulated example_stored_march
             + solar_savings_monthly example_solar_april,
           last_solar_update := Some example_april \<rparr>
   \<and> sorted (map (\<lambda>x. calendar_month (fst x))
        [(example_now, Refresh), (example_april, Refresh), (example_april, Refresh)])
   \<and> accrual_months [(example_now, Refresh), (example_april, Refresh), (example_april, Refresh)]
        example_coordinator = [(2024, 4)]
   \<and> distinct
        (accrual_months
           [(example_now, Refresh), (example_april, Refresh), (example_april, Refresh)]
           example_coordinator)"
proof -
  note r0 = example_refresh
  have d0: "data_solar example_data = Some example_solar"
    by (simp add: example_data_def)
  have l0: "last_solar_update (stored example_coordinator) = None"
    by (simp add: example_coordinator_def example_stored_def)
  have roi0: "solar_roi_accumulated (stored example_coordinator) = 5000"
    by (simp add: example_coordinator_def example_stored_def)
  have roi1: "solar_roi_accumulated example_stored_march = 5000"
    by (simp add: example_stored_march_def example_stored_def)
  have roi2: "solar_roi_accumulated example_stored_april = 510967 / 100"
    by (simp add: example_stored_april_def)
  have d1: "data_solar example_data_april = Some example_solar_april"
    by (simp add: example_data_april_def)
  have l1: "last_solar_update example_stored_march = Some example_now"
    by (simp add: example_stored_march_def)
  have l2: "last_solar_update (stored (example_coordinator\<lparr> stored := example_stored_april \<rparr>))
      = Some example_april"
    by (simp add: example_stored_april_def)
  have mo: "month example_april \<noteq> month example_now"
    by (simp add: example_april_def example_now_def)
  have s: "sorted (map (\<lambda>x. calendar_month (fst x))
        [(example_now, Refresh), (example_april, Refresh), (example_april, Refresh)])"
    by (simp add: calendar_month_def example_april_def example_now_def)
  have p0: "async_refresh example_now example_coordinator
      = example_coordinator\<lparr> stored := example_stored_march \<rparr>"
    by (simp add: async_refresh_def r0)
  have p1: "async_refresh example_april (example_coordinator\<lparr> stored := example_stored_march \<rparr>)
      = example_coordinator\<lparr> stored := example_stored_april \<rparr>"
    by (simp add: async_refresh_def example_refresh_april)
  have p2: "solar_roi_accumulated
        (stored (async_refresh example_april
                   (example_coordinator\<lparr> stored := example_stored_april \<rparr>)))
      = 510967 / 100"
    using perform_same_month [OF l2, of example_april Refresh] by (simp add: roi2)
  have cm: "calendar_month example_april = (2024, 4)"
    by (simp add: calendar_month_def example_april_def)
  have acc: "accrual_months
        [(example_now, Refresh), (example_april, Refresh), (example_april, Refresh)]
        example_coordinator = [(2024, 4)]"
    by (simp add: p0 p1 p2 roi0 roi1 roi2 cm)
  have first: "stored (example_coordinator\<lparr> stored := example_stored_march \<rparr>)
      = (stored example_coordinator)\<lparr> last_solar_update := Some example_now \<rparr>"
    using solar_roi_accrual [of example_now example_coordinator example_data
        "example_coordinator\<lparr> stored := example_stored_march \<rparr>" example_solar] r0 d0 l0
    by simp
  have later: "example_stored_april =
       example_stored_march
         \<lparr> solar_roi_accumulated :=
             solar_roi_accumulated example_stored_march
             + solar_savings_monthly example_solar_april,
           last_solar_update := Some example_april \<rparr>"
    using solar_roi_accrual [of example_april
        "example_coordinator\<lparr> stored := example_stored_march \<rparr>" example_data_april
        "example_coordinator\<lparr> stored := example_stored_april \<rparr>" example_solar_april]
      example_refresh_april d1 l1 mo
    by simp
  have dist: "distinct
        (accrual_months
           [(example_now, Refresh), (example_april, Refresh), (example_april, Refresh)]
           example_coordinator)"
    using solar_roi_accrual [of _ _ _ _ _
        "[(example_now, Refresh), (example_april, Refresh), (example_april, Refresh)]"
        example_coordinator] s
    by blast
  show ?thesis
    using r0 l0 roi0 roi1 example_refresh_april d1 l1 mo later s acc dist
    by simp
qed

end
